theory Spec2Isabelle
  imports Complex_Main
begin

section \<open>Values shared by the two services\<close>

text \<open>
  A rejected promise or a thrown exception is a value of type \<open>error\<close>; an
  \<^verbatim>\<open>async\<close> function of result type \<open>'a\<close> is a function into \<open>error + 'a\<close>, with
  \<open>Inl\<close> the rejection. \<^verbatim>\<open>console.error\<close> and \<^verbatim>\<open>console.warn\<close> only write to the log and
  are left out; a \<^verbatim>\<open>catch\<close> block that logs and rethrows is the identity on the error.

  \<^item> \<open>TypeError\<close>: what \<^verbatim>\<open>fetch\<close> rejects with when the network call itself fails;
  \<^item> \<open>SyntaxError\<close>: what \<^verbatim>\<open>response.json()\<close> rejects with on a body that is not JSON;
  \<^item> \<open>Error\<close>: \<^verbatim>\<open>new Error(message)\<close>, thrown by the code of the repository;
  \<^item> \<open>ErrorEvent\<close>: the event an image element passes to \<^verbatim>\<open>onerror\<close>, carrying the
    address that did not load;
  \<^item> \<open>DOMException\<close>: what a call on a canvas throws, with the name of the exception.
\<close>

datatype error =
  TypeError string | SyntaxError string | Error string | ErrorEvent string | DOMException string

text \<open>
  The operator \<^verbatim>\<open>a || b\<close> of JavaScript yields \<open>b\<close> when \<open>a\<close> is falsy. An optional
  field is \<open>None\<close> when it is unset (\<^verbatim>\<open>undefined\<close>); a string is falsy when it is empty and
  a number when it is zero. Numbers are real numbers here: \<^verbatim>\<open>NaN\<close> (falsy as well) and the
  infinities are outside the model.
\<close>

definition or_string :: "string option \<Rightarrow> string \<Rightarrow> string" where
  "or_string a b = (case a of None \<Rightarrow> b | Some s \<Rightarrow> if s = [] then b else s)"

definition or_number :: "real option \<Rightarrow> real \<Rightarrow> real" where
  "or_number a b = (case a of None \<Rightarrow> b | Some n \<Rightarrow> if n = 0 then b else n)"

section \<open>The generation client: \<^verbatim>\<open>src/services/dreamLayerAPI.ts\<close>\<close>

subsection \<open>Interfaces\<close>

record GenerationRequest =
  prompt :: string
  negative_prompt :: "string option"
  checkpoint :: "string option"
  steps :: "real option"
  cfg :: "real option"
  width :: "real option"
  height :: "real option"
  batch_size :: "real option"

record GeneratedImage =
  image_filename :: string
  image_url :: "string option"

record GenerationResponse =
  generation_status :: string
  message :: "string option"
  generated_images :: "GeneratedImage list option"
  generation_error :: "string option"

record Model =
  filename :: string
  model_id :: string
  name :: string

record ModelsResponse =
  status :: string
  models :: "Model list"

text \<open>
  The object literal \<^verbatim>\<open>payload\<close> of \<^verbatim>\<open>generateImage\<close>: the same eight keys as the request,
  none of them optional any more.
\<close>

record Payload =
  payload_prompt :: string
  payload_negative_prompt :: string
  payload_checkpoint :: string
  payload_steps :: real
  payload_cfg :: real
  payload_width :: real
  payload_height :: real
  payload_batch_size :: real

subsection \<open>The HTTP interface\<close>

text \<open>
  \<^verbatim>\<open>fetch(url)\<close> and \<^verbatim>\<open>fetch(url, {method, headers, body})\<close>. The body is the payload
  object that \<^verbatim>\<open>JSON.stringify\<close> serialises; the serialised text is not modelled.
  A response carries the flag \<^verbatim>\<open>ok\<close> (true exactly for a status 200 to 299), its status
  text, and what \<^verbatim>\<open>response.json()\<close> and \<^verbatim>\<open>response.blob()\<close> resolve to or reject with.
  The parsed body has the interface type the source gives it
  (\<^verbatim>\<open>const data: ModelsResponse = await response.json()\<close>). The backend is a parameter
  \<open>fetch\<close> of every operation that calls it.
\<close>

record FetchRequest =
  request_url :: string
  request_method :: string
  request_headers :: "(string \<times> string) list"
  request_body :: "Payload option"

record 'a Response =
  ok :: bool
  statusText :: string
  json :: "error + 'a"
  blob :: "error + string"

definition fetch_get :: "string \<Rightarrow> FetchRequest" where
  "fetch_get u = \<lparr>request_url = u, request_method = ''GET'', request_headers = [],
     request_body = None\<rparr>"

subsection \<open>The class \<^verbatim>\<open>DreamLayerAPI\<close>\<close>

record DreamLayerAPI =
  baseURL :: string
  txt2imgURL :: string
  modelsURL :: string
  imagesURL :: string

definition new_DreamLayerAPI :: "string \<Rightarrow> DreamLayerAPI" where
  "new_DreamLayerAPI b = \<lparr>baseURL = b, txt2imgURL = b @ '':5001/api/txt2img'',
     modelsURL = b @ '':5002/api/models'', imagesURL = b @ '':5001/api/images''\<rparr>"

text \<open>The exported instance: \<^verbatim>\<open>new DreamLayerAPI()\<close>, with the default base address.\<close>

definition dreamLayerAPI :: DreamLayerAPI where
  "dreamLayerAPI = new_DreamLayerAPI ''http://localhost''"

definition getModels ::
  "DreamLayerAPI \<Rightarrow> (FetchRequest \<Rightarrow> error + ModelsResponse Response) \<Rightarrow> error + Model list" where
  "getModels api fetch =
     (case fetch (fetch_get (modelsURL api)) of
        Inl e \<Rightarrow> Inl e
      | Inr response \<Rightarrow>
          (case json response of
             Inl e \<Rightarrow> Inl e
           | Inr data \<Rightarrow>
               if status data = ''success'' then Inr (models data)
               else Inl (Error ''Failed to fetch models'')))"

definition payload_of :: "GenerationRequest \<Rightarrow> Payload" where
  "payload_of request = \<lparr>
     payload_prompt = prompt request,
     payload_negative_prompt = or_string (negative_prompt request) ''blurry, low quality, bad anatomy'',
     payload_checkpoint = or_string (checkpoint request) ''stable-diffusion-v1-5.safetensors'',
     payload_steps = or_number (steps request) 20,
     payload_cfg = or_number (cfg request) 7.0,
     payload_width = or_number (width request) 300,
     payload_height = or_number (height request) 300,
     payload_batch_size = or_number (batch_size request) 1\<rparr>"

definition txt2img_request :: "DreamLayerAPI \<Rightarrow> GenerationRequest \<Rightarrow> FetchRequest" where
  "txt2img_request api request = \<lparr>request_url = txt2imgURL api, request_method = ''POST'',
     request_headers = [(''Content-Type'', ''application/json'')],
     request_body = Some (payload_of request)\<rparr>"

definition generateImage ::
  "DreamLayerAPI \<Rightarrow> (FetchRequest \<Rightarrow> error + GenerationResponse Response) \<Rightarrow>
   GenerationRequest \<Rightarrow> error + GenerationResponse" where
  "generateImage api fetch request =
     (case fetch (txt2img_request api request) of
        Inl e \<Rightarrow> Inl e
      | Inr response \<Rightarrow> (case json response of Inl e \<Rightarrow> Inl e | Inr data \<Rightarrow> Inr data))"

definition getImageURL :: "DreamLayerAPI \<Rightarrow> string \<Rightarrow> string" where
  "getImageURL api fname = imagesURL api @ ''/'' @ fname"

definition downloadImage ::
  "DreamLayerAPI \<Rightarrow> (FetchRequest \<Rightarrow> error + 'a Response) \<Rightarrow> string \<Rightarrow> error + string" where
  "downloadImage api fetch fname =
     (case fetch (fetch_get (getImageURL api fname)) of
        Inl e \<Rightarrow> Inl e
      | Inr response \<Rightarrow>
          if \<not> ok response then Inl (Error (''Failed to download image: '' @ statusText response))
          else blob response)"

text \<open>A request that sets nothing but its prompt.\<close>

definition prompt_only :: "string \<Rightarrow> GenerationRequest" where
  "prompt_only p = \<lparr>prompt = p, negative_prompt = None, checkpoint = None, steps = None,
     cfg = None, width = None, height = None, batch_size = None\<rparr>"

section \<open>The disc compositor (the class \<^verbatim>\<open>ImageCompositor\<close>)\<close>

subsection \<open>Surfaces and pictures\<close>

text \<open>
  A surface is the ideal picture the drawing calls describe: a colour at every point of
  the plane, \<open>None\<close> where nothing is painted (a transparent point). A point \<open>(x, y)\<close>
  has real coordinates, \<open>x\<close> to the right and \<open>y\<close> downwards, as on a canvas. Colours are
  the CSS colour strings the source assigns to \<^verbatim>\<open>fillStyle\<close>, all of them opaque; a point
  of a loaded picture is opaque or transparent. The rounding of a shape's edge to whole
  pixels, anti-aliasing, partly transparent colours and floating point (\<open>0.4\<close> and
  \<open>0.08\<close> are the exact fractions) are outside the model. A picture is a whole number of
  pixels wide and high.
\<close>

type_synonym point = "real \<times> real"

type_synonym colour = string

type_synonym bitmap = "point \<Rightarrow> colour option"

record Picture =
  picture_width :: nat
  picture_height :: nat
  picture_pixels :: bitmap

text \<open>
  An image element that \<^verbatim>\<open>drawImage\<close> can take. \<open>complete\<close> says whether the element has
  its picture when it is drawn: an element that has not finished loading is drawn as
  nothing, without an error.
\<close>

record Image =
  complete :: bool
  picture :: Picture

text \<open>
  \<^verbatim>\<open>canvas.toDataURL(type)\<close>: the media type and the picture that the address encodes, or
  the address \<^verbatim>\<open>data:,\<close> of a canvas that has no pixels. The bytes of the PNG encoding are
  not modelled; two data URLs are equal when they have the same type and encode the same
  picture.
\<close>

datatype DataURL = DataURL string Picture | NoData

text \<open>
  The document's list of available images, as far as the compositor changes it: the data
  URLs whose pictures the document has decoded. By the HTML standard an element whose
  \<^verbatim>\<open>src\<close> is assigned an address of the list is complete at once; with any other address
  it starts to fetch and decode only after the running script has finished, it is not
  complete until then, and the address is in the list afterwards. The document is a
  state: every call of the compositor takes it and returns it as it is once the elements
  the call has created have loaded.
\<close>

type_synonym Document = "DataURL set"

text \<open>
  What the browser gives the compositor:
  \<^item> \<open>load\<close>: the picture an address loads to, \<open>None\<close> where loading fails (the element's
    \<^verbatim>\<open>onerror\<close> fires);
  \<^item> \<open>context2d\<close>: whether \<^verbatim>\<open>getContext('2d')\<close> yields a context (else \<^verbatim>\<open>null\<close>).
\<close>

record Platform =
  load :: "string \<Rightarrow> Picture option"
  context2d :: bool

text \<open>The output size is a number of JavaScript, as the interface declares it.\<close>

record CompositorOptions =
  discBaseImage :: "Image option"
  generatedImage :: "Image option"
  outputSize :: "real option"

subsection \<open>The canvas and its 2D drawing context\<close>

text \<open>
  The only path segments the source adds are full turns,
  \<^verbatim>\<open>arc(x, y, r, 0, 2 * Math.PI, counterclockwise)\<close>: \<open>Circle (x, y) r counterclockwise\<close>.
  The straight segments that join one arc to the next, and that close the path, run along
  one line forth and back and enclose nothing.
\<close>

datatype subpath = Circle point real bool

text \<open>
  A canvas together with its context. The drawing state that \<^verbatim>\<open>save\<close> pushes and
  \<^verbatim>\<open>restore\<close> pops is the fill style and the clipping region; the current path is not
  part of it.
\<close>

record Canvas =
  canvas_width :: nat
  canvas_height :: nat
  pixels :: bitmap
  fillStyle :: colour
  path :: "subpath list"
  clipping :: "point \<Rightarrow> bool"
  stack :: "(colour \<times> (point \<Rightarrow> bool)) list"

definition blank_canvas :: "nat \<Rightarrow> nat \<Rightarrow> Canvas" where
  "blank_canvas w h = \<lparr>canvas_width = w, canvas_height = h, pixels = (\<lambda>p. None),
     fillStyle = ''#000000'', path = [], clipping = (\<lambda>p. True), stack = []\<rparr>"

text \<open>
  Assigning a number to \<^verbatim>\<open>canvas.width\<close> or \<^verbatim>\<open>canvas.height\<close>: the number is converted to an
  \<^verbatim>\<open>unsigned long\<close> (rounded towards zero, then taken modulo \<open>2\<^sup>3\<^sup>2\<close>), and a value above
  2147483647 is replaced by the default of the attribute, 300 for the width and 150 for
  the height.
\<close>

definition to_unsigned_long :: "real \<Rightarrow> nat" where
  "to_unsigned_long x = nat ((if x < 0 then - \<lfloor>- x\<rfloor> else \<lfloor>x\<rfloor>) mod 2 ^ 32)"

definition reflected :: "nat \<Rightarrow> real \<Rightarrow> nat" where
  "reflected dflt x = (if to_unsigned_long x \<le> 2147483647 then to_unsigned_long x else dflt)"

text \<open>
  \<^verbatim>\<open>document.createElement('canvas')\<close> followed by \<^verbatim>\<open>canvas.width = sz; canvas.height = sz\<close>.
\<close>

definition sized_canvas :: "real \<Rightarrow> Canvas" where
  "sized_canvas sz = blank_canvas (reflected 300 sz) (reflected 150 sz)"

definition getContext :: "Platform \<Rightarrow> Canvas \<Rightarrow> Canvas option" where
  "getContext env c = (if context2d env then Some c else None)"

definition in_canvas :: "Canvas \<Rightarrow> point \<Rightarrow> bool" where
  "in_canvas c p \<longleftrightarrow>
     0 \<le> fst p \<and> fst p < real (canvas_width c) \<and> 0 \<le> snd p \<and> snd p < real (canvas_height c)"

text \<open>Source-over compositing of an opaque or transparent point over what is there.\<close>

definition over :: "colour option \<Rightarrow> colour option \<Rightarrow> colour option" where
  "over s d = (case s of None \<Rightarrow> d | Some c \<Rightarrow> Some c)"

text \<open>Every drawing call paints inside the canvas and inside the clipping region only.\<close>

definition paint :: "Canvas \<Rightarrow> bitmap \<Rightarrow> Canvas" where
  "paint c s = c\<lparr>pixels := (\<lambda>p. if in_canvas c p \<and> clipping c p then over (s p) (pixels c p)
                                else pixels c p)\<rparr>"

text \<open>
  The rectangle with a corner at \<open>(x, y)\<close>, the width \<open>w\<close> and the height \<open>h\<close>; a negative
  width or height extends it to the left or upwards.
\<close>

definition in_rect :: "real \<Rightarrow> real \<Rightarrow> real \<Rightarrow> real \<Rightarrow> point \<Rightarrow> bool" where
  "in_rect x y w h p \<longleftrightarrow>
     min x (x + w) \<le> fst p \<and> fst p < max x (x + w) \<and> min y (y + h) \<le> snd p \<and> snd p < max y (y + h)"

definition fillRect :: "Canvas \<Rightarrow> real \<Rightarrow> real \<Rightarrow> real \<Rightarrow> real \<Rightarrow> Canvas" where
  "fillRect c x y w h = paint c (\<lambda>p. if in_rect x y w h p then Some (fillStyle c) else None)"

definition inside :: "point \<Rightarrow> real \<Rightarrow> point \<Rightarrow> bool" where
  "inside c r p \<longleftrightarrow> (fst p - fst c)\<^sup>2 + (snd p - snd c)\<^sup>2 < r\<^sup>2"

text \<open>
  The winding number of a path around a point: a clockwise circle turns once around the
  points inside it, a counterclockwise one once the other way. Filling and clipping use
  the nonzero rule, the default of \<^verbatim>\<open>fill()\<close> and \<^verbatim>\<open>clip()\<close>.
\<close>

fun turns :: "subpath \<Rightarrow> point \<Rightarrow> int" where
  "turns (Circle c r counterclockwise) p =
     (if inside c r p then (if counterclockwise then - 1 else 1) else 0)"

definition winding :: "subpath list \<Rightarrow> point \<Rightarrow> int" where
  "winding ps p = sum_list (map (\<lambda>s. turns s p) ps)"

definition beginPath :: "Canvas \<Rightarrow> Canvas" where
  "beginPath c = c\<lparr>path := []\<rparr>"

text \<open>\<^verbatim>\<open>arc\<close> throws an \<open>IndexSizeError\<close> on a negative radius.\<close>

definition arc :: "Canvas \<Rightarrow> real \<Rightarrow> real \<Rightarrow> real \<Rightarrow> bool \<Rightarrow> error + Canvas" where
  "arc c x y r counterclockwise =
     (if r < 0 then Inl (DOMException ''IndexSizeError'')
      else Inr (c\<lparr>path := path c @ [Circle (x, y) r counterclockwise]\<rparr>))"

definition fill :: "Canvas \<Rightarrow> Canvas" where
  "fill c = paint c (\<lambda>p. if winding (path c) p \<noteq> 0 then Some (fillStyle c) else None)"

definition clip :: "Canvas \<Rightarrow> Canvas" where
  "clip c = c\<lparr>clipping := (\<lambda>p. clipping c p \<and> winding (path c) p \<noteq> 0)\<rparr>"

definition save :: "Canvas \<Rightarrow> Canvas" where
  "save c = c\<lparr>stack := (fillStyle c, clipping c) # stack c\<rparr>"

definition restore :: "Canvas \<Rightarrow> Canvas" where
  "restore c = (case stack c of [] \<Rightarrow> c
     | (f, k) # rest \<Rightarrow> c\<lparr>fillStyle := f, clipping := k, stack := rest\<rparr>)"

text \<open>
  A picture stretched over a rectangle: the point \<open>p\<close> of the rectangle shows the point of
  the picture at the same relative place.
\<close>

definition sample :: "Picture \<Rightarrow> point \<Rightarrow> colour option" where
  "sample pic q =
     (if in_rect 0 0 (real (picture_width pic)) (real (picture_height pic)) q
      then picture_pixels pic q else None)"

definition stretch :: "Picture \<Rightarrow> real \<Rightarrow> real \<Rightarrow> real \<Rightarrow> real \<Rightarrow> bitmap" where
  "stretch pic dx dy dw dh p =
     (if in_rect dx dy dw dh p
      then sample pic ((fst p - dx) * real (picture_width pic) / dw,
                       (snd p - dy) * real (picture_height pic) / dh)
      else None)"

text \<open>
  \<^verbatim>\<open>drawImage(image, dx, dy, dw, dh)\<close> with an image element, the only way the source calls
  it with five arguments: an element that is not complete is drawn as nothing.
\<close>

definition drawImage5 :: "Canvas \<Rightarrow> Image \<Rightarrow> real \<Rightarrow> real \<Rightarrow> real \<Rightarrow> real \<Rightarrow> Canvas" where
  "drawImage5 c img dx dy dw dh =
     (if \<not> complete img then c else paint c (stretch (picture img) dx dy dw dh))"

definition canvas_picture :: "Canvas \<Rightarrow> Picture" where
  "canvas_picture c = \<lparr>picture_width = canvas_width c, picture_height = canvas_height c,
     picture_pixels = pixels c\<rparr>"

text \<open>
  \<^verbatim>\<open>drawImage(canvas, dx, dy)\<close> with a canvas, the only way the source calls it with three
  arguments: the canvas is drawn at its own size and shows what has been drawn on it so
  far; a canvas of width or height 0 makes the call throw an \<open>InvalidStateError\<close>.
\<close>

definition drawImage3 :: "Canvas \<Rightarrow> Canvas \<Rightarrow> real \<Rightarrow> real \<Rightarrow> error + Canvas" where
  "drawImage3 c t dx dy =
     (if canvas_width t = 0 \<or> canvas_height t = 0 then Inl (DOMException ''InvalidStateError'')
      else Inr (paint c (stretch (canvas_picture t) dx dy
                           (real (canvas_width t)) (real (canvas_height t)))))"

definition toDataURL :: "Canvas \<Rightarrow> string \<Rightarrow> DataURL" where
  "toDataURL c mime =
     (if canvas_width c = 0 \<or> canvas_height c = 0 then NoData else DataURL mime (canvas_picture c))"

text \<open>
  \<^verbatim>\<open>const img = new Image(); img.src = dataURL\<close>, not awaited: the element, complete or
  not, and the document once the element has loaded. The address \<^verbatim>\<open>data:,\<close> holds no
  picture.
\<close>

definition image_of_src :: "Document \<Rightarrow> DataURL \<Rightarrow> Image \<times> Document" where
  "image_of_src doc url =
     (case url of
        NoData \<Rightarrow>
          (\<lparr>complete = False,
            picture = \<lparr>picture_width = 0, picture_height = 0, picture_pixels = (\<lambda>p. None)\<rparr>\<rparr>, doc)
      | DataURL mime pic \<Rightarrow> (\<lparr>complete = (url \<in> doc), picture = pic\<rparr>, insert url doc))"

subsection \<open>The class \<^verbatim>\<open>ImageCompositor\<close>\<close>

definition defaultDiscBase :: string where
  "defaultDiscBase = ''/disc-bg-new.png''"

definition defaultOutputSize :: real where
  "defaultOutputSize = 300"

text \<open>The promise resolves from \<^verbatim>\<open>onload\<close>, with a complete element, or rejects from \<^verbatim>\<open>onerror\<close>.\<close>

definition loadImage :: "Platform \<Rightarrow> string \<Rightarrow> error + Image" where
  "loadImage env src =
     (case load env src of
        None \<Rightarrow> Inl (ErrorEvent src)
      | Some pic \<Rightarrow> Inr \<lparr>complete = True, picture = pic\<rparr>)"

definition createCanvas :: "Platform \<Rightarrow> real \<Rightarrow> error + Canvas" where
  "createCanvas env sz =
     (case getContext env (sized_canvas sz) of
        None \<Rightarrow> Inl (Error ''Could not get canvas context'')
      | Some ctx \<Rightarrow> Inr ctx)"

text \<open>The twenty marks of the texture: the corner of the \<open>i\<close>-th unit square.\<close>

definition mark :: "real \<Rightarrow> nat \<Rightarrow> point" where
  "mark sz i =
     (let centerX = sz / 2; centerY = sz / 2; outerRadius = sz * 0.4;
          angle = (real i / 20) * 2 * pi
      in (centerX + cos angle * (outerRadius * 0.7), centerY + sin angle * (outerRadius * 0.7)))"

definition createSolidDisc :: "Platform \<Rightarrow> Document \<Rightarrow> real \<Rightarrow> error + Image \<times> Document" where
  "createSolidDisc env doc sz =
     (case createCanvas env sz of
        Inl e \<Rightarrow> Inl e
      | Inr ctx0 \<Rightarrow>
          (let centerX = sz / 2;
               centerY = sz / 2;
               outerRadius = sz * 0.4;
               innerRadius = sz * 0.08;
               ctx1 = fillRect (ctx0\<lparr>fillStyle := ''#f0f0f0''\<rparr>) 0 0 sz sz
           in case arc (beginPath (ctx1\<lparr>fillStyle := ''#888888''\<rparr>))
                     centerX centerY outerRadius False of
                Inl e \<Rightarrow> Inl e
              | Inr outer \<Rightarrow>
                  (case arc (beginPath ((fill outer)\<lparr>fillStyle := ''#ffffff''\<rparr>))
                          centerX centerY innerRadius False of
                     Inl e \<Rightarrow> Inl e
                   | Inr inner \<Rightarrow>
                       (let ctx4 = fold (\<lambda>i c. fillRect c (fst (mark sz i)) (snd (mark sz i)) 1 1)
                                     [0..<20] ((fill inner)\<lparr>fillStyle := ''#666666''\<rparr>)
                        in Inr (image_of_src doc (toDataURL ctx4 ''image/png''))))))"

text \<open>
  The inner \<^verbatim>\<open>try\<close> of \<^verbatim>\<open>compositeDiscCover\<close>: the disc base, or the solid disc when the
  asset does not load.
\<close>

definition discBase :: "Platform \<Rightarrow> Document \<Rightarrow> real \<Rightarrow> error + Image \<times> Document" where
  "discBase env doc sz =
     (case loadImage env defaultDiscBase of
        Inr img \<Rightarrow> Inr (img, doc)
      | Inl e \<Rightarrow> createSolidDisc env doc sz)"

text \<open>The output surface once the disc base is drawn on it.\<close>

definition drawDiscBase :: "Canvas \<Rightarrow> Image \<Rightarrow> real \<Rightarrow> Canvas" where
  "drawDiscBase ctx disc sz = drawImage5 ctx disc 0 0 sz sz"

text \<open>
  The temporary canvas with the generated image on it. Its context is taken with
  \<^verbatim>\<open>getContext('2d')!\<close>: were it \<^verbatim>\<open>null\<close>, the call on it would throw a \<open>TypeError\<close>.
\<close>

definition tempCanvas :: "Platform \<Rightarrow> Image \<Rightarrow> real \<Rightarrow> error + Canvas" where
  "tempCanvas env generated sz =
     (case getContext env (sized_canvas sz) of
        None \<Rightarrow> Inl (TypeError ''tempCtx is null'')
      | Some tempCtx \<Rightarrow> Inr (drawImage5 tempCtx generated 0 0 sz sz))"

text \<open>
  The clip of the output surface: \<^verbatim>\<open>ctx.save()\<close>, the path of the two arcs, the outer one
  clockwise and the inner one counterclockwise, and \<^verbatim>\<open>ctx.clip()\<close>.
\<close>

definition clipDisc :: "Canvas \<Rightarrow> real \<Rightarrow> error + Canvas" where
  "clipDisc ctx sz =
     (let centerX = sz / 2;
          centerY = sz / 2;
          outerRadius = sz * 0.4;
          innerRadius = sz * 0.08
      in case arc (beginPath (save ctx)) centerX centerY outerRadius False of
           Inl e \<Rightarrow> Inl e
         | Inr ctx3 \<Rightarrow>
             (case arc ctx3 centerX centerY innerRadius True of
                Inl e \<Rightarrow> Inl e
              | Inr ctx4 \<Rightarrow> Inr (clip ctx4)))"

text \<open>The temporary canvas drawn through the clip, and \<^verbatim>\<open>ctx.restore()\<close>.\<close>

definition drawMasked :: "Canvas \<Rightarrow> Canvas \<Rightarrow> real \<Rightarrow> error + Canvas" where
  "drawMasked ctx temp sz =
     (case clipDisc ctx sz of
        Inl e \<Rightarrow> Inl e
      | Inr clipped \<Rightarrow>
          (case drawImage3 clipped temp 0 0 of
             Inl e \<Rightarrow> Inl e
           | Inr drawn \<Rightarrow> Inr (restore drawn)))"

text \<open>\<^verbatim>\<open>options.outputSize || this.defaultOutputSize\<close>\<close>

definition sizeOf :: "CompositorOptions \<Rightarrow> real" where
  "sizeOf options = or_number (outputSize options) defaultOutputSize"

text \<open>
  The result of the call, a data URL or the rejection, and the document after the call.
\<close>

definition compositeDiscCover ::
  "Platform \<Rightarrow> Document \<Rightarrow> string \<Rightarrow> CompositorOptions \<Rightarrow> (error + DataURL) \<times> Document" where
  "compositeDiscCover env doc generatedImageUrl options =
     (let sz = sizeOf options in
      case createCanvas env sz of
        Inl e \<Rightarrow> (Inl e, doc)
      | Inr ctx \<Rightarrow>
          (case loadImage env generatedImageUrl of
             Inl e \<Rightarrow> (Inl e, doc)
           | Inr generated \<Rightarrow>
               (case discBase env doc sz of
                  Inl e \<Rightarrow> (Inl e, doc)
                | Inr (disc, doc') \<Rightarrow>
                    (case tempCanvas env generated sz of
                       Inl e \<Rightarrow> (Inl e, doc')
                     | Inr temp \<Rightarrow>
                         (case drawMasked (drawDiscBase ctx disc sz) temp sz of
                            Inl e \<Rightarrow> (Inl e, doc')
                          | Inr final \<Rightarrow> (Inr (toDataURL final ''image/png''), doc'))))))"

subsection \<open>Vocabulary of the properties\<close>

text \<open>The distance of a point from a centre, and the centre of a surface of a given size.\<close>

definition distance :: "point \<Rightarrow> point \<Rightarrow> real" where
  "distance c p = sqrt ((fst p - fst c)\<^sup>2 + (snd p - snd c)\<^sup>2)"

definition center :: "real \<Rightarrow> point" where
  "center sz = (sz / 2, sz / 2)"

text \<open>A point under one of the twenty unit squares of the texture.\<close>

definition on_mark :: "real \<Rightarrow> point \<Rightarrow> bool" where
  "on_mark sz p \<longleftrightarrow> list_ex (\<lambda>i. in_rect (fst (mark sz i)) (snd (mark sz i)) 1 1 p) [0..<20]"

text \<open>The solid disc, point by point: the marks over the hole over the disc over the ground.\<close>

definition solid_disc :: "real \<Rightarrow> point \<Rightarrow> colour" where
  "solid_disc sz p =
     (if on_mark sz p then ''#666666''
      else if inside (center sz) (sz * 0.08) p then ''#ffffff''
      else if inside (center sz) (sz * 0.4) p then ''#888888''
      else ''#f0f0f0'')"

text \<open>The picture of the solid disc of a whole size, and its data URL.\<close>

definition solid_picture :: "nat \<Rightarrow> Picture" where
  "solid_picture n = \<lparr>picture_width = n, picture_height = n,
     picture_pixels = (\<lambda>p. if in_rect 0 0 (real n) (real n) p then Some (solid_disc (real n) p) else None)\<rparr>"

text \<open>A picture stretched over the surface of a given size, from its corner \<open>(0, 0)\<close>.\<close>

definition stretched :: "Picture \<Rightarrow> real \<Rightarrow> bitmap" where
  "stretched pic sz = stretch pic 0 0 sz sz"



text \<open>A backend that answers as \<open>fetch\<close> does, with another HTTP status on every response.\<close>

definition with_status :: "bool \<Rightarrow> string \<Rightarrow> (FetchRequest \<Rightarrow> error + 'a Response) \<Rightarrow>
    FetchRequest \<Rightarrow> error + 'a Response" where
  "with_status b s fetch q =
     (case fetch q of Inl e \<Rightarrow> Inl e | Inr response \<Rightarrow> Inr (response\<lparr>ok := b, statusText := s\<rparr>))"

section \<open>Concrete inputs\<close>

text \<open>
  A backend that answers a generation request with HTTP status 500 and a JSON body that
  reports the failure; model endpoints that report an error, or answer 503 with a usable
  body; an image endpoint that answers 404.
\<close>

definition backend_failure :: GenerationResponse where
  "backend_failure = \<lparr>generation_status = ''error'', message = None, generated_images = None,
     generation_error = Some ''CUDA out of memory''\<rparr>"

definition fetch_500 :: "FetchRequest \<Rightarrow> error + GenerationResponse Response" where
  "fetch_500 q = Inr \<lparr>ok = False, statusText = ''Internal Server Error'',
     json = Inr backend_failure, blob = Inr []\<rparr>"

definition models_error :: "FetchRequest \<Rightarrow> error + ModelsResponse Response" where
  "models_error q = Inr \<lparr>ok = True, statusText = ''OK'',
     json = Inr \<lparr>status = ''error'', models = []\<rparr>, blob = Inr []\<rparr>"

definition one_model :: Model where
  "one_model = \<lparr>filename = ''stable-diffusion-v1-5.safetensors'', model_id = ''sd15'',
     name = ''Stable Diffusion 1.5''\<rparr>"

definition models_503 :: "FetchRequest \<Rightarrow> error + ModelsResponse Response" where
  "models_503 q = Inr \<lparr>ok = False, statusText = ''Service Unavailable'',
     json = Inr \<lparr>status = ''success'', models = [one_model]\<rparr>, blob = Inr []\<rparr>"

definition image_404 :: "FetchRequest \<Rightarrow> error + unit Response" where
  "image_404 q = Inr \<lparr>ok = False, statusText = ''Not Found'',
     json = Inl (SyntaxError ''Unexpected token''), blob = Inr ''Not Found''\<rparr>"

text \<open>
  A browser that loads one generated image, a red square, and has no disc base asset; a
  second browser that has a blue picture as its disc base asset too. Option objects that
  leave the size unset, or ask for 100, 0, 150.5, -5 and 2147483648.
\<close>

definition red_square :: Picture where
  "red_square = \<lparr>picture_width = 2, picture_height = 2, picture_pixels = (\<lambda>p. Some ''#ff0000'')\<rparr>"

definition blue_square :: Picture where
  "blue_square = \<lparr>picture_width = 4, picture_height = 4, picture_pixels = (\<lambda>p. Some ''#0000ff'')\<rparr>"

definition cover_url :: string where
  "cover_url = ''http://localhost:5001/api/images/cover.png''"

definition missing_url :: string where
  "missing_url = ''http://localhost:5001/api/images/missing.png''"

definition browser :: Platform where
  "browser = \<lparr>load = (\<lambda>src. if src = cover_url then Some red_square else None),
     context2d = True\<rparr>"

definition browser_with_asset :: Platform where
  "browser_with_asset =
     \<lparr>load = (\<lambda>src. if src = cover_url then Some red_square
                     else if src = defaultDiscBase then Some blue_square else None),
      context2d = True\<rparr>"

definition sized :: "real option \<Rightarrow> CompositorOptions" where
  "sized s = \<lparr>discBaseImage = None, generatedImage = None, outputSize = s\<rparr>"

definition no_options :: CompositorOptions where
  "no_options = sized None"

section \<open>Properties of the generation client\<close>

lemma payload_of_prompt_only:
  "payload_of (prompt_only p) = \<lparr>payload_prompt = p,
     payload_negative_prompt = ''blurry, low quality, bad anatomy'',
     payload_checkpoint = ''stable-diffusion-v1-5.safetensors'',
     payload_steps = 20, payload_cfg = 7, payload_width = 300, payload_height = 300,
     payload_batch_size = 1\<rparr>"
  by (simp add: payload_of_def prompt_only_def or_string_def or_number_def)

text \<open>
  \<^bold>\<open>C3.\<close> A request that sets only its prompt is sent with every optional field at its
  default: the negative prompt \<open>blurry, low quality, bad anatomy\<close>, the checkpoint
  \<open>stable-diffusion-v1-5.safetensors\<close>, 20 steps, a guidance of 7, a size of 300 by 300 and
  a batch of one; the prompt is sent as it is. \<^verbatim>\<open>generateImage\<close> gives \<^verbatim>\<open>fetch\<close> exactly this
  request, a POST to the generation endpoint, and nothing else.
\<close>

theorem generateImage_sends_defaults:
  "payload_of (prompt_only p) = \<lparr>payload_prompt = p,
     payload_negative_prompt = ''blurry, low quality, bad anatomy'',
     payload_checkpoint = ''stable-diffusion-v1-5.safetensors'',
     payload_steps = 20, payload_cfg = 7.0, payload_width = 300, payload_height = 300,
     payload_batch_size = 1\<rparr>
   \<and> generateImage api fetch (prompt_only p) =
     (case fetch \<lparr>request_url = txt2imgURL api, request_method = ''POST'',
                  request_headers = [(''Content-Type'', ''application/json'')],
                  request_body = Some \<lparr>payload_prompt = p,
                    payload_negative_prompt = ''blurry, low quality, bad anatomy'',
                    payload_checkpoint = ''stable-diffusion-v1-5.safetensors'',
                    payload_steps = 20, payload_cfg = 7.0, payload_width = 300,
                    payload_height = 300, payload_batch_size = 1\<rparr>\<rparr> of
        Inl e \<Rightarrow> Inl e
      | Inr response \<Rightarrow> json response)"
proof -
  have body: "txt2img_request api (prompt_only p) = \<lparr>request_url = txt2imgURL api, request_method = ''POST'',
                  request_headers = [(''Content-Type'', ''application/json'')],
                  request_body = Some \<lparr>payload_prompt = p,
                    payload_negative_prompt = ''blurry, low quality, bad anatomy'',
                    payload_checkpoint = ''stable-diffusion-v1-5.safetensors'',
                    payload_steps = 20, payload_cfg = 7.0, payload_width = 300,
                    payload_height = 300, payload_batch_size = 1\<rparr>\<rparr>"
    by (simp add: txt2img_request_def payload_of_prompt_only)
  have "generateImage api fetch (prompt_only p) =
     (case fetch (txt2img_request api (prompt_only p)) of Inl e \<Rightarrow> Inl e | Inr response \<Rightarrow> json response)"
    by (simp add: generateImage_def split: sum.splits)
  with body show ?thesis
    by (simp add: payload_of_prompt_only)
qed

lemma or_number_nonzero: "b \<noteq> 0 \<Longrightarrow> or_number a b \<noteq> 0"
  by (simp add: or_number_def split: option.splits)

lemma or_string_nonempty: "b \<noteq> [] \<Longrightarrow> or_string a b \<noteq> []"
  by (simp add: or_string_def split: option.splits)

lemma or_number_zero: "or_number (Some 0) b = b" "or_number None b = b"
  by (simp_all add: or_number_def)

lemma or_string_empty: "or_string (Some []) b = b" "or_string None b = b"
  by (simp_all add: or_string_def)

text \<open>
  \<^bold>\<open>C10.\<close> A numeric field set to 0 and a string field set to the empty string are sent
  exactly as if they were unset, that is with the default in their place. So no request
  is ever sent with 0 steps, a guidance of 0, a width or height of 0, a batch of 0, an
  empty negative prompt or an empty checkpoint.
\<close>

theorem falsy_fields_get_defaults:
  "txt2img_request api (r\<lparr>steps := Some 0\<rparr>) = txt2img_request api (r\<lparr>steps := None\<rparr>)
   \<and> txt2img_request api (r\<lparr>cfg := Some 0\<rparr>) = txt2img_request api (r\<lparr>cfg := None\<rparr>)
   \<and> txt2img_request api (r\<lparr>width := Some 0\<rparr>) = txt2img_request api (r\<lparr>width := None\<rparr>)
   \<and> txt2img_request api (r\<lparr>height := Some 0\<rparr>) = txt2img_request api (r\<lparr>height := None\<rparr>)
   \<and> txt2img_request api (r\<lparr>batch_size := Some 0\<rparr>) = txt2img_request api (r\<lparr>batch_size := None\<rparr>)
   \<and> txt2img_request api (r\<lparr>negative_prompt := Some []\<rparr>) = txt2img_request api (r\<lparr>negative_prompt := None\<rparr>)
   \<and> txt2img_request api (r\<lparr>checkpoint := Some []\<rparr>) = txt2img_request api (r\<lparr>checkpoint := None\<rparr>)
   \<and> payload_steps (payload_of (r\<lparr>steps := Some 0\<rparr>)) = 20
   \<and> payload_cfg (payload_of (r\<lparr>cfg := Some 0\<rparr>)) = 7.0
   \<and> payload_width (payload_of (r\<lparr>width := Some 0\<rparr>)) = 300
   \<and> payload_height (payload_of (r\<lparr>height := Some 0\<rparr>)) = 300
   \<and> payload_batch_size (payload_of (r\<lparr>batch_size := Some 0\<rparr>)) = 1
   \<and> payload_negative_prompt (payload_of (r\<lparr>negative_prompt := Some []\<rparr>)) = ''blurry, low quality, bad anatomy''
   \<and> payload_checkpoint (payload_of (r\<lparr>checkpoint := Some []\<rparr>)) = ''stable-diffusion-v1-5.safetensors''
   \<and> payload_steps (payload_of r) \<noteq> 0 \<and> payload_cfg (payload_of r) \<noteq> 0
   \<and> payload_width (payload_of r) \<noteq> 0 \<and> payload_height (payload_of r) \<noteq> 0
   \<and> payload_batch_size (payload_of r) \<noteq> 0
   \<and> payload_negative_prompt (payload_of r) \<noteq> [] \<and> payload_checkpoint (payload_of r) \<noteq> []
   \<and> generateImage api fetch r =
       (case fetch (txt2img_request api r) of Inl e \<Rightarrow> Inl e | Inr response \<Rightarrow> json response)
   \<and> request_body (txt2img_request api r) = Some (payload_of r)"
proof -
  have same: "txt2img_request api (r\<lparr>steps := Some 0\<rparr>) = txt2img_request api (r\<lparr>steps := None\<rparr>)"
    "txt2img_request api (r\<lparr>cfg := Some 0\<rparr>) = txt2img_request api (r\<lparr>cfg := None\<rparr>)"
    "txt2img_request api (r\<lparr>width := Some 0\<rparr>) = txt2img_request api (r\<lparr>width := None\<rparr>)"
    "txt2img_request api (r\<lparr>height := Some 0\<rparr>) = txt2img_request api (r\<lparr>height := None\<rparr>)"
    "txt2img_request api (r\<lparr>batch_size := Some 0\<rparr>) = txt2img_request api (r\<lparr>batch_size := None\<rparr>)"
    "txt2img_request api (r\<lparr>negative_prompt := Some []\<rparr>) = txt2img_request api (r\<lparr>negative_prompt := None\<rparr>)"
    "txt2img_request api (r\<lparr>checkpoint := Some []\<rparr>) = txt2img_request api (r\<lparr>checkpoint := None\<rparr>)"
    by (simp_all add: txt2img_request_def payload_of_def or_number_zero or_string_empty)
  have dflt: "payload_steps (payload_of (r\<lparr>steps := Some 0\<rparr>)) = 20"
    "payload_cfg (payload_of (r\<lparr>cfg := Some 0\<rparr>)) = 7.0"
    "payload_width (payload_of (r\<lparr>width := Some 0\<rparr>)) = 300"
    "payload_height (payload_of (r\<lparr>height := Some 0\<rparr>)) = 300"
    "payload_batch_size (payload_of (r\<lparr>batch_size := Some 0\<rparr>)) = 1"
    "payload_negative_prompt (payload_of (r\<lparr>negative_prompt := Some []\<rparr>)) = ''blurry, low quality, bad anatomy''"
    "payload_checkpoint (payload_of (r\<lparr>checkpoint := Some []\<rparr>)) = ''stable-diffusion-v1-5.safetensors''"
    by (simp_all add: payload_of_def or_number_zero or_string_empty)
  have never: "payload_steps (payload_of r) \<noteq> 0" "payload_cfg (payload_of r) \<noteq> 0"
    "payload_width (payload_of r) \<noteq> 0" "payload_height (payload_of r) \<noteq> 0"
    "payload_batch_size (payload_of r) \<noteq> 0"
    "payload_negative_prompt (payload_of r) \<noteq> []" "payload_checkpoint (payload_of r) \<noteq> []"
    by (simp_all add: payload_of_def or_number_nonzero or_string_nonempty)
  have sent: "generateImage api fetch r =
       (case fetch (txt2img_request api r) of Inl e \<Rightarrow> Inl e | Inr response \<Rightarrow> json response)"
    "request_body (txt2img_request api r) = Some (payload_of r)"
    by (simp_all add: generateImage_def txt2img_request_def split: sum.splits)
  from same dflt never sent show ?thesis by blast
qed

text \<open>
  \<^bold>\<open>C8.\<close> The address of an image is the images endpoint, a slash and the file name. The
  file name is the rest of the address after the slash, character by character: nothing
  is escaped, and two file names give the same address only when they are equal. The
  images endpoint is the base address followed by \<open>:5001/api/images\<close>.
\<close>

theorem getImageURL_verbatim:
  "getImageURL api f = imagesURL api @ ''/'' @ f
   \<and> drop (length (imagesURL api) + 1) (getImageURL api f) = f
   \<and> (getImageURL api f = getImageURL api g \<longleftrightarrow> f = g)
   \<and> getImageURL (new_DreamLayerAPI b) f = b @ '':5001/api/images/'' @ f
   \<and> getImageURL dreamLayerAPI f = ''http://localhost:5001/api/images/'' @ f"
  by (simp add: getImageURL_def new_DreamLayerAPI_def dreamLayerAPI_def)

text \<open>
  \<^bold>\<open>C4.\<close> When the backend answers and the body parses, \<^verbatim>\<open>generateImage\<close> returns the
  parsed body as it is, whatever its status and error fields say. It fails exactly when
  \<^verbatim>\<open>fetch\<close> rejects or the body does not parse, and then with that very error.
\<close>

theorem generateImage_verbatim:
  "(\<forall>response data. fetch (txt2img_request api r) = Inr response \<and> json response = Inr data
       \<longrightarrow> generateImage api fetch r = Inr data)
   \<and> (\<forall>e. generateImage api fetch r = Inl e \<longleftrightarrow>
         fetch (txt2img_request api r) = Inl e
         \<or> (\<exists>response. fetch (txt2img_request api r) = Inr response \<and> json response = Inl e))"
  by (auto simp: generateImage_def split: sum.splits)

text \<open>
  A body whose status is \<open>error\<close>, sent with HTTP status 500, is returned to the caller.
\<close>

theorem generateImage_verbatim_witness:
  "fetch_500 (txt2img_request dreamLayerAPI (prompt_only ''a cat'')) =
     Inr \<lparr>ok = False, statusText = ''Internal Server Error'', json = Inr backend_failure, blob = Inr []\<rparr>
   \<and> generation_status backend_failure = ''error''
   \<and> generateImage dreamLayerAPI fetch_500 (prompt_only ''a cat'') = Inr backend_failure"
  using generateImage_verbatim [of fetch_500 dreamLayerAPI "prompt_only ''a cat''"]
  by (simp add: fetch_500_def backend_failure_def)

text \<open>
  \<^bold>\<open>C6.\<close> \<^verbatim>\<open>getModels\<close> returns a list of models exactly when the backend answers, the body
  parses and its status field is \<open>success\<close>, and the list is then the body's. A parsed
  body with any other status makes it throw \<open>Failed to fetch models\<close>.
\<close>

theorem getModels_success_only:
  "(getModels api fetch = Inr ms \<longleftrightarrow>
      (\<exists>response data. fetch (fetch_get (modelsURL api)) = Inr response
         \<and> json response = Inr data \<and> status data = ''success'' \<and> ms = models data))
   \<and> (\<forall>response data. fetch (fetch_get (modelsURL api)) = Inr response
         \<and> json response = Inr data \<and> status data \<noteq> ''success''
       \<longrightarrow> getModels api fetch = Inl (Error ''Failed to fetch models''))"
proof (intro conjI allI impI)
  show "getModels api fetch = Inr ms \<longleftrightarrow>
      (\<exists>response data. fetch (fetch_get (modelsURL api)) = Inr response
         \<and> json response = Inr data \<and> status data = ''success'' \<and> ms = models data)"
  proof (cases "fetch (fetch_get (modelsURL api))")
    case (Inl e)
    then show ?thesis by (simp add: getModels_def)
  next
    case (Inr response)
    then show ?thesis
      by (cases "json response") (auto simp: getModels_def)
  qed
next
  fix response data
  assume "fetch (fetch_get (modelsURL api)) = Inr response
         \<and> json response = Inr data \<and> status data \<noteq> ''success''"
  then show "getModels api fetch = Inl (Error ''Failed to fetch models'')"
    by (simp add: getModels_def)
qed

text \<open>A body of status \<open>error\<close> throws; a body of status \<open>success\<close> gives its models.\<close>

theorem getModels_success_only_witness:
  "getModels dreamLayerAPI models_error = Inl (Error ''Failed to fetch models'')
   \<and> getModels dreamLayerAPI models_503 = Inr [one_model]"
proof -
  have "models_error (fetch_get (modelsURL dreamLayerAPI)) = Inr \<lparr>ok = True, statusText = ''OK'',
     json = Inr \<lparr>status = ''error'', models = []\<rparr>, blob = Inr []\<rparr>"
    by (simp add: models_error_def)
  then have 1: "getModels dreamLayerAPI models_error = Inl (Error ''Failed to fetch models'')"
    using getModels_success_only [of dreamLayerAPI models_error] by simp
  have "getModels dreamLayerAPI models_503 = Inr [one_model]"
    using getModels_success_only [of dreamLayerAPI models_503 "[one_model]"]
    by (simp add: models_503_def)
  with 1 show ?thesis by simp
qed

text \<open>
  \<^bold>\<open>C5.\<close> The claim that every operation throws on a response whose HTTP status is not
  2xx fails for two of the three: a generation request answered with status 500 and a
  JSON body returns that body, and a model request answered with status 503 and a body of
  status \<open>success\<close> returns the models.
\<close>

theorem non_2xx_returned_counterexample:
  "fetch_500 (txt2img_request dreamLayerAPI (prompt_only ''a cat'')) =
     Inr \<lparr>ok = False, statusText = ''Internal Server Error'', json = Inr backend_failure, blob = Inr []\<rparr>
   \<and> generateImage dreamLayerAPI fetch_500 (prompt_only ''a cat'') = Inr backend_failure
   \<and> models_503 (fetch_get (modelsURL dreamLayerAPI)) =
     Inr \<lparr>ok = False, statusText = ''Service Unavailable'',
          json = Inr \<lparr>status = ''success'', models = [one_model]\<rparr>, blob = Inr []\<rparr>
   \<and> getModels dreamLayerAPI models_503 = Inr [one_model]"
  by (simp add: fetch_500_def models_503_def generateImage_def getModels_def)

text \<open>
  \<^bold>\<open>C5, as the code has it.\<close> Only \<^verbatim>\<open>downloadImage\<close> looks at the HTTP status: on a response
  that is not ok it throws an error whose message ends in the status text, on one that is
  ok it returns the blob, and a rejection of \<^verbatim>\<open>fetch\<close> is passed on unchanged.
  \<^verbatim>\<open>generateImage\<close> and \<^verbatim>\<open>getModels\<close> never look at the HTTP status: they give the same
  result whatever status the backend puts on its responses, and they too pass a rejection
  of \<^verbatim>\<open>fetch\<close> on unchanged.
\<close>

theorem http_status_only_in_downloadImage:
  "(\<forall>response. fetch (fetch_get (getImageURL api f)) = Inr response \<and> \<not> ok response
       \<longrightarrow> downloadImage api fetch f
             = Inl (Error (''Failed to download image: '' @ statusText response)))
   \<and> (\<forall>response. fetch (fetch_get (getImageURL api f)) = Inr response \<and> ok response
       \<longrightarrow> downloadImage api fetch f = blob response)
   \<and> (\<forall>e. fetch (fetch_get (getImageURL api f)) = Inl e \<longrightarrow> downloadImage api fetch f = Inl e)
   \<and> generateImage api (with_status b s fetchG) r = generateImage api fetchG r
   \<and> getModels api (with_status b s fetchM) = getModels api fetchM
   \<and> (\<forall>e. fetchG (txt2img_request api r) = Inl e \<longrightarrow> generateImage api fetchG r = Inl e)
   \<and> (\<forall>e. fetchM (fetch_get (modelsURL api)) = Inl e \<longrightarrow> getModels api fetchM = Inl e)"
proof -
  have dl: "\<And>response. fetch (fetch_get (getImageURL api f)) = Inr response \<Longrightarrow>
      downloadImage api fetch f =
        (if ok response then blob response
         else Inl (Error (''Failed to download image: '' @ statusText response)))"
    by (simp add: downloadImage_def)
  have dl_err: "\<And>e. fetch (fetch_get (getImageURL api f)) = Inl e \<Longrightarrow> downloadImage api fetch f = Inl e"
    by (simp add: downloadImage_def)
  have gen: "generateImage api (with_status b s fetchG) r = generateImage api fetchG r"
    by (cases "fetchG (txt2img_request api r)") (simp_all add: generateImage_def with_status_def)
  have mod: "getModels api (with_status b s fetchM) = getModels api fetchM"
    by (cases "fetchM (fetch_get (modelsURL api))") (simp_all add: getModels_def with_status_def)
  have gen_err: "\<And>e. fetchG (txt2img_request api r) = Inl e \<Longrightarrow> generateImage api fetchG r = Inl e"
    by (simp add: generateImage_def)
  have mod_err: "\<And>e. fetchM (fetch_get (modelsURL api)) = Inl e \<Longrightarrow> getModels api fetchM = Inl e"
    by (simp add: getModels_def)
  from dl dl_err gen mod gen_err mod_err show ?thesis by simp
qed

text \<open>
  An image request answered with 404 throws \<open>Failed to download image: Not Found\<close>; a
  generation request answered with status 502 and a JSON body returns the body.
\<close>

theorem http_status_only_in_downloadImage_witness:
  "downloadImage dreamLayerAPI image_404 ''cover.png'' = Inl (Error ''Failed to download image: Not Found'')
   \<and> generateImage dreamLayerAPI (with_status False ''Bad Gateway'' fetch_500) (prompt_only ''a cat'')
       = Inr backend_failure"
proof -
  have "image_404 (fetch_get (getImageURL dreamLayerAPI ''cover.png'')) =
      Inr \<lparr>ok = False, statusText = ''Not Found'',
     json = Inl (SyntaxError ''Unexpected token''), blob = Inr ''Not Found''\<rparr>"
    by (simp add: image_404_def)
  then have 1: "downloadImage dreamLayerAPI image_404 ''cover.png'' = Inl (Error ''Failed to download image: Not Found'')"
    using http_status_only_in_downloadImage [of image_404 dreamLayerAPI "''cover.png''"]
    by simp
  have "generateImage dreamLayerAPI (with_status False ''Bad Gateway'' fetch_500) (prompt_only ''a cat'')
       = generateImage dreamLayerAPI fetch_500 (prompt_only ''a cat'')"
    using http_status_only_in_downloadImage [of image_404 dreamLayerAPI "''cover.png''" False "''Bad Gateway''" fetch_500]
    by simp
  then have "generateImage dreamLayerAPI (with_status False ''Bad Gateway'' fetch_500) (prompt_only ''a cat'')
       = Inr backend_failure"
    by (simp add: generateImage_def fetch_500_def)
  with 1 show ?thesis by simp
qed

section \<open>Properties of the disc compositor\<close>

subsection \<open>Circles, rectangles and what each drawing call paints\<close>

lemma inside_iff_distance: "0 \<le> r \<Longrightarrow> inside c r p \<longleftrightarrow> distance c p < r"
proof -
  assume r: "0 \<le> r"
  let ?d = "(fst p - fst c)\<^sup>2 + (snd p - snd c)\<^sup>2"
  have "sqrt ?d < r \<longleftrightarrow> sqrt ?d < sqrt (r\<^sup>2)" using r by simp
  also have "\<dots> \<longleftrightarrow> ?d < r\<^sup>2" by (rule real_sqrt_less_iff)
  finally show ?thesis by (simp add: inside_def distance_def)
qed

lemma beyond_iff_distance:
  "0 \<le> r \<Longrightarrow> r < distance c p \<longleftrightarrow> r\<^sup>2 < (fst p - fst c)\<^sup>2 + (snd p - snd c)\<^sup>2"
proof -
  assume r: "0 \<le> r"
  let ?d = "(fst p - fst c)\<^sup>2 + (snd p - snd c)\<^sup>2"
  have "r < sqrt ?d \<longleftrightarrow> sqrt (r\<^sup>2) < sqrt ?d" using r by simp
  also have "\<dots> \<longleftrightarrow> r\<^sup>2 < ?d" by (rule real_sqrt_less_iff)
  finally show ?thesis by (simp add: distance_def)
qed

lemma inside_mono: "0 \<le> r \<Longrightarrow> r \<le> R \<Longrightarrow> inside c r p \<Longrightarrow> inside c R p"
  using inside_iff_distance [of r c p] inside_iff_distance [of R c p] by simp

lemma winding_circle: "winding [Circle c r False] p \<noteq> 0 \<longleftrightarrow> inside c r p"
  by (simp add: winding_def)

lemma winding_circle_zero: "winding [Circle c r False] p = 0 \<longleftrightarrow> \<not> inside c r p"
  by (simp add: winding_def)

lemma winding_annulus:
  assumes "0 \<le> r" and "r \<le> R"
  shows "winding [Circle c R False, Circle c r True] p \<noteq> 0 \<longleftrightarrow> inside c R p \<and> \<not> inside c r p"
  using inside_mono [OF assms, of c p] by (auto simp: winding_def)

text \<open>Rectangles of a width and height that are not negative.\<close>

lemma in_rect_iff:
  "0 \<le> w \<Longrightarrow> 0 \<le> h \<Longrightarrow>
   in_rect x y w h p \<longleftrightarrow> x \<le> fst p \<and> fst p < x + w \<and> y \<le> snd p \<and> snd p < y + h"
  by (simp add: in_rect_def min_def max_def)

lemma in_rect_nat:
  "in_rect 0 0 (real w) (real h) p \<longleftrightarrow> 0 \<le> fst p \<and> fst p < real w \<and> 0 \<le> snd p \<and> snd p < real h"
  by (simp add: in_rect_iff)

lemma in_canvas_rect: "in_canvas c p \<longleftrightarrow> in_rect 0 0 (real (canvas_width c)) (real (canvas_height c)) p"
  by (simp add: in_canvas_def in_rect_nat)

text \<open>The size of a canvas.\<close>

lemma to_unsigned_long_nat: "n < 2 ^ 32 \<Longrightarrow> to_unsigned_long (real n) = n"
proof -
  assume n: "n < 2 ^ 32"
  then have "int n < 2 ^ 32" by (metis of_nat_less_iff of_nat_numeral of_nat_power)
  then have "int n mod 2 ^ 32 = int n" by simp
  then show ?thesis by (simp add: to_unsigned_long_def)
qed

lemma reflected_nat: "n \<le> 2147483647 \<Longrightarrow> reflected d (real n) = n"
  by (simp add: reflected_def to_unsigned_long_nat)

lemma sized_canvas_nat: "n \<le> 2147483647 \<Longrightarrow> sized_canvas (real n) = blank_canvas n n"
  by (simp add: sized_canvas_def reflected_nat)

lemma blank_canvas_simps:
  "canvas_width (blank_canvas w h) = w" "canvas_height (blank_canvas w h) = h"
  "pixels (blank_canvas w h) p = None" "clipping (blank_canvas w h) p" "stack (blank_canvas w h) = []"
  "in_canvas (blank_canvas w h) p \<longleftrightarrow> in_rect 0 0 (real w) (real h) p"
  by (simp_all add: blank_canvas_def in_canvas_def in_rect_nat)

lemma sized_canvas_simps:
  "canvas_width (sized_canvas s) = reflected 300 s" "canvas_height (sized_canvas s) = reflected 150 s"
  "pixels (sized_canvas s) p = None" "clipping (sized_canvas s) p" "stack (sized_canvas s) = []"
  by (simp_all add: sized_canvas_def blank_canvas_simps)

text \<open>The output size that the options ask for.\<close>

lemma sizeOf_cases:
  "outputSize options = None \<Longrightarrow> sizeOf options = 300"
  "outputSize options = Some 0 \<Longrightarrow> sizeOf options = 300"
  "outputSize options = Some s \<Longrightarrow> s \<noteq> 0 \<Longrightarrow> sizeOf options = s"
  by (simp_all add: sizeOf_def or_number_def defaultOutputSize_def)

lemma sizeOf_nonzero: "sizeOf options \<noteq> 0"
  by (simp add: sizeOf_def or_number_def defaultOutputSize_def split: option.splits)

text \<open>The frame of the drawing calls: what each leaves as it is.\<close>

lemma paint_frame:
  "canvas_width (paint c s) = canvas_width c" "canvas_height (paint c s) = canvas_height c"
  "fillStyle (paint c s) = fillStyle c" "path (paint c s) = path c"
  "clipping (paint c s) = clipping c" "stack (paint c s) = stack c"
  "in_canvas (paint c s) = in_canvas c"
  by (simp_all add: paint_def in_canvas_def fun_eq_iff)

lemma in_canvas_update:
  "in_canvas (c\<lparr>fillStyle := f\<rparr>) = in_canvas c" "in_canvas (c\<lparr>path := q\<rparr>) = in_canvas c"
  "in_canvas (beginPath c) = in_canvas c"
  by (simp_all add: in_canvas_def beginPath_def fun_eq_iff)

lemma pixels_paint:
  "pixels (paint c s) p = (if in_canvas c p \<and> clipping c p then over (s p) (pixels c p) else pixels c p)"
  by (simp add: paint_def)

lemma drawImage5_frame:
  "canvas_width (drawImage5 c img x y w h) = canvas_width c"
  "canvas_height (drawImage5 c img x y w h) = canvas_height c"
  "fillStyle (drawImage5 c img x y w h) = fillStyle c"
  "path (drawImage5 c img x y w h) = path c"
  "clipping (drawImage5 c img x y w h) = clipping c"
  "stack (drawImage5 c img x y w h) = stack c"
  "in_canvas (drawImage5 c img x y w h) = in_canvas c"
  by (simp_all add: drawImage5_def paint_frame)

lemma pixels_drawImage5:
  "pixels (drawImage5 c img x y w h) p =
     (if complete img \<and> in_canvas c p \<and> clipping c p
      then over (stretch (picture img) x y w h p) (pixels c p) else pixels c p)"
  by (simp add: drawImage5_def pixels_paint)

lemma fillRect_frame:
  "canvas_width (fillRect c x y w h) = canvas_width c" "canvas_height (fillRect c x y w h) = canvas_height c"
  "fillStyle (fillRect c x y w h) = fillStyle c" "path (fillRect c x y w h) = path c"
  "clipping (fillRect c x y w h) = clipping c" "stack (fillRect c x y w h) = stack c"
  "in_canvas (fillRect c x y w h) = in_canvas c"
  by (simp_all add: fillRect_def paint_frame)

lemma pixels_fillRect:
  "pixels (fillRect c x y w h) p =
     (if in_canvas c p \<and> clipping c p \<and> in_rect x y w h p then Some (fillStyle c) else pixels c p)"
  by (simp add: fillRect_def pixels_paint over_def)

lemma pixels_fill:
  "pixels (fill c) p =
     (if in_canvas c p \<and> clipping c p \<and> winding (path c) p \<noteq> 0 then Some (fillStyle c) else pixels c p)"
  by (simp add: fill_def pixels_paint over_def)

lemma fold_fillRect_frame:
  "canvas_width (fold (\<lambda>i c. fillRect c (x i) (y i) w h) is c) = canvas_width c
   \<and> canvas_height (fold (\<lambda>i c. fillRect c (x i) (y i) w h) is c) = canvas_height c
   \<and> fillStyle (fold (\<lambda>i c. fillRect c (x i) (y i) w h) is c) = fillStyle c
   \<and> clipping (fold (\<lambda>i c. fillRect c (x i) (y i) w h) is c) = clipping c"
  by (induction "is" arbitrary: c) (simp_all add: fillRect_frame)

lemma pixels_fold_fillRect:
  "pixels (fold (\<lambda>i c. fillRect c (x i) (y i) w h) is c) p =
     (if in_canvas c p \<and> clipping c p \<and> list_ex (\<lambda>i. in_rect (x i) (y i) w h p) is
      then Some (fillStyle c) else pixels c p)"
proof (induction "is" arbitrary: c)
  case Nil
  show ?case by simp
next
  case (Cons i "is")
  show ?case
    by (auto simp: Cons.IH fillRect_frame pixels_fillRect)
qed

text \<open>The clip of the two arcs, for a size that is not negative.\<close>

lemma clip_two_arcs:
  assumes "0 \<le> r" and "r \<le> R"
  shows "clip ((save c)\<lparr>path := [Circle z R False, Circle z r True]\<rparr>)
     = (save c)\<lparr>path := [Circle z R False, Circle z r True],
         clipping := (\<lambda>p. clipping c p \<and> inside z R p \<and> \<not> inside z r p)\<rparr>"
proof -
  have "(\<lambda>p. clipping c p \<and> winding [Circle z R False, Circle z r True] p \<noteq> 0)
      = (\<lambda>p. clipping c p \<and> inside z R p \<and> \<not> inside z r p)"
    by (rule ext) (simp only: winding_annulus [OF assms])
  then show ?thesis by (simp add: clip_def save_def)
qed

lemma two_arcs:
  assumes "0 \<le> r" and "0 \<le> R"
  shows "(case arc (beginPath (save c)) x y R False of
           Inl e \<Rightarrow> Inl e
         | Inr ctx3 \<Rightarrow>
             (case arc ctx3 x y r True of
                Inl e \<Rightarrow> Inl e
              | Inr ctx4 \<Rightarrow> Inr (clip ctx4)))
     = Inr (clip ((save c)\<lparr>path := [Circle (x, y) R False, Circle (x, y) r True]\<rparr>))"
  using assms by (simp add: arc_def beginPath_def not_less)

lemma clipDisc_eq:
  assumes "0 \<le> s"
  shows "clipDisc c s = Inr ((save c)\<lparr>path := [Circle (center s) (s * 0.4) False, Circle (center s) (s * 0.08) True],
      clipping := (\<lambda>p. clipping c p \<and> inside (center s) (s * 0.4) p \<and> \<not> inside (center s) (s * 0.08) p)\<rparr>)"
proof -
  have r: "(0::real) \<le> s * 0.08" "s * 0.08 \<le> s * 0.4" "0 \<le> s * 0.4"
    using assms by simp_all
  show ?thesis
    unfolding clipDisc_def Let_def center_def two_arcs [OF r(1,3)] clip_two_arcs [OF r(1,2)] ..
qed


lemma pixels_restore: "pixels (restore c) = pixels c"
  by (simp add: restore_def split: list.splits prod.splits)

lemma restore_frame:
  "canvas_width (restore c) = canvas_width c" "canvas_height (restore c) = canvas_height c"
  by (simp_all add: restore_def split: list.splits prod.splits)

lemma stretch_own_size:
  "0 < canvas_width t \<Longrightarrow> 0 < canvas_height t \<Longrightarrow>
   stretch (canvas_picture t) 0 0 (real (canvas_width t)) (real (canvas_height t)) p
     = (if in_canvas t p then pixels t p else None)"
  by (cases p) (simp add: stretch_def sample_def canvas_picture_def in_rect_nat in_canvas_def)

lemma drawMasked_eq:
  assumes "0 \<le> s" "0 < canvas_width t" "0 < canvas_height t"
  shows "\<exists>final. drawMasked c t s = Inr final
     \<and> canvas_width final = canvas_width c \<and> canvas_height final = canvas_height c
     \<and> fillStyle final = fillStyle c \<and> clipping final = clipping c \<and> stack final = stack c
     \<and> (\<forall>p. pixels final p =
          (if in_canvas c p \<and> clipping c p \<and> inside (center s) (s * 0.4) p
               \<and> \<not> inside (center s) (s * 0.08) p \<and> in_canvas t p
           then over (pixels t p) (pixels c p) else pixels c p))"
proof -
  define k where "k = (save c)\<lparr>path := [Circle (center s) (s * 0.4) False, Circle (center s) (s * 0.08) True],
      clipping := (\<lambda>p. clipping c p \<and> inside (center s) (s * 0.4) p \<and> \<not> inside (center s) (s * 0.08) p)\<rparr>"
  define d where "d = paint k (stretch (canvas_picture t) 0 0 (real (canvas_width t)) (real (canvas_height t)))"
  have k: "clipDisc c s = Inr k" unfolding k_def using assms(1) by (rule clipDisc_eq)
  have kf: "canvas_width k = canvas_width c" "canvas_height k = canvas_height c" "pixels k = pixels c"
    "stack k = (fillStyle c, clipping c) # stack c" "in_canvas k = in_canvas c"
    "\<And>p. clipping k p \<longleftrightarrow> clipping c p \<and> inside (center s) (s * 0.4) p \<and> \<not> inside (center s) (s * 0.08) p"
    by (simp_all add: k_def save_def in_canvas_def fun_eq_iff)
  have d: "drawImage3 k t 0 0 = Inr d" using assms(2,3) by (simp add: drawImage3_def d_def)
  have final: "drawMasked c t s = Inr (restore d)" by (simp add: drawMasked_def k d)
  have df: "stack d = (fillStyle c, clipping c) # stack c" "canvas_width d = canvas_width c"
    "canvas_height d = canvas_height c"
    by (simp_all add: d_def paint_frame kf)
  have px: "pixels (restore d) p =
          (if in_canvas c p \<and> clipping c p \<and> inside (center s) (s * 0.4) p
               \<and> \<not> inside (center s) (s * 0.08) p \<and> in_canvas t p
           then over (pixels t p) (pixels c p) else pixels c p)" for p
    unfolding pixels_restore d_def pixels_paint stretch_own_size [OF assms(2,3)] kf
    by (simp add: over_def)
  have rf: "fillStyle (restore d) = fillStyle c" "clipping (restore d) = clipping c" "stack (restore d) = stack c"
    by (simp_all add: restore_def df)
  from final px rf df show ?thesis by (simp add: restore_frame)
qed

subsection \<open>The picture of the solid disc and the steps of the composite\<close>

lemma createCanvas_ok: "context2d env \<Longrightarrow> createCanvas env s = Inr (sized_canvas s)"
  by (simp add: createCanvas_def getContext_def)

lemma createCanvas_no:
  "\<not> context2d env \<Longrightarrow> createCanvas env s = Inl (Error ''Could not get canvas context'')"
  by (simp add: createCanvas_def getContext_def)

lemma tempCanvas_ok:
  "context2d env \<Longrightarrow> tempCanvas env g s = Inr (drawImage5 (sized_canvas s) g 0 0 s s)"
  by (simp add: tempCanvas_def getContext_def)

text \<open>The solid disc is drawn without an error when the size is not negative.\<close>

lemma createSolidDisc_unfold:
  assumes "context2d env" and "0 \<le> s"
  shows "createSolidDisc env doc s = Inr (image_of_src doc (toDataURL
     (fold (\<lambda>i c. fillRect c (fst (mark s i)) (snd (mark s i)) 1 1) [0..<20]
        ((fill ((beginPath ((fill ((beginPath ((fillRect ((sized_canvas s)\<lparr>fillStyle := ''#f0f0f0''\<rparr>) 0 0 s s)
              \<lparr>fillStyle := ''#888888''\<rparr>))\<lparr>path := [Circle (center s) (s * 0.4) False]\<rparr>))
           \<lparr>fillStyle := ''#ffffff''\<rparr>))\<lparr>path := [Circle (center s) (s * 0.08) False]\<rparr>))
         \<lparr>fillStyle := ''#666666''\<rparr>)) ''image/png''))"
proof -
  have r: "\<not> s * 0.4 < 0" "\<not> s * 0.08 < 0" using assms(2) by simp_all
  show ?thesis
    unfolding createSolidDisc_def createCanvas_ok [OF assms(1)] Let_def arc_def center_def beginPath_def
    using r by simp
qed


lemma createSolidDisc_total:
  assumes "context2d env" and "0 \<le> s"
  shows "\<exists>disc doc'. createSolidDisc env doc s = Inr (disc, doc')"
proof -
  from createSolidDisc_unfold [OF assms, of doc]
  obtain u where "createSolidDisc env doc s = Inr (image_of_src doc u)" by blast
  then show ?thesis by (cases "image_of_src doc u") auto
qed

lemma createSolidDisc_picture:
  assumes "context2d env" and "0 < n" and "n \<le> 2147483647"
  shows "createSolidDisc env doc (real n) =
     Inr (\<lparr>complete = (DataURL ''image/png'' (solid_picture n) \<in> doc), picture = solid_picture n\<rparr>,
          insert (DataURL ''image/png'' (solid_picture n)) doc)"
proof -
  define s where "s = real n"
  define c1 where "c1 = fillRect ((sized_canvas s)\<lparr>fillStyle := ''#f0f0f0''\<rparr>) 0 0 s s"
  define c2 where "c2 = fill ((beginPath (c1\<lparr>fillStyle := ''#888888''\<rparr>))\<lparr>path := [Circle (center s) (s * 0.4) False]\<rparr>)"
  define c3 where "c3 = fill ((beginPath (c2\<lparr>fillStyle := ''#ffffff''\<rparr>))\<lparr>path := [Circle (center s) (s * 0.08) False]\<rparr>)"
  define c4 where "c4 = fold (\<lambda>i c. fillRect c (fst (mark s i)) (snd (mark s i)) 1 1)
                        [0..<20] (c3\<lparr>fillStyle := ''#666666''\<rparr>)"
  have s0: "0 \<le> s" by (simp add: s_def)
  have unfold: "createSolidDisc env doc s = Inr (image_of_src doc (toDataURL c4 ''image/png''))"
    unfolding createSolidDisc_unfold [OF assms(1) s0] c4_def c3_def c2_def c1_def ..
  define A where "A = in_rect 0 0 s s"
  have canvas: "sized_canvas s = blank_canvas n n"
    unfolding s_def using assms(3) by (rule sized_canvas_nat)
  have f0: "canvas_width (sized_canvas s) = n" "canvas_height (sized_canvas s) = n"
    "clipping (sized_canvas s) = (\<lambda>p. True)" "pixels (sized_canvas s) = (\<lambda>p. None)"
    "in_canvas (sized_canvas s) = A"
    unfolding canvas by (simp_all add: blank_canvas_simps fun_eq_iff A_def s_def)
  have f1: "canvas_width c1 = n" "canvas_height c1 = n" "clipping c1 = (\<lambda>p. True)" "in_canvas c1 = A"
    by (simp_all add: c1_def fillRect_frame f0 in_canvas_update)
  have p1: "pixels c1 p = (if A p then Some ''#f0f0f0'' else None)" for p
    unfolding c1_def pixels_fillRect by (simp add: f0 in_canvas_update A_def [symmetric])
  have f2: "canvas_width c2 = n" "canvas_height c2 = n" "clipping c2 = (\<lambda>p. True)" "in_canvas c2 = A"
    by (simp_all add: c2_def fill_def paint_frame in_canvas_update f1) (simp add: beginPath_def f1)+
  have p2: "pixels c2 p = (if A p \<and> inside (center s) (s * 0.4) p
       then Some ''#888888'' else pixels c1 p)" for p
    unfolding c2_def pixels_fill by (simp add: in_canvas_update f1) (simp add: beginPath_def winding_circle winding_circle_zero f1)
  have f3: "canvas_width c3 = n" "canvas_height c3 = n" "clipping c3 = (\<lambda>p. True)" "in_canvas c3 = A"
    by (simp_all add: c3_def fill_def paint_frame in_canvas_update f2) (simp add: beginPath_def f2)+
  have p3: "pixels c3 p = (if A p \<and> inside (center s) (s * 0.08) p
       then Some ''#ffffff'' else pixels c2 p)" for p
    unfolding c3_def pixels_fill by (simp add: in_canvas_update f2) (simp add: beginPath_def winding_circle winding_circle_zero f2)
  have f4: "canvas_width c4 = n" "canvas_height c4 = n"
    by (simp_all add: c4_def fold_fillRect_frame f3)
  have p4: "pixels c4 p = (if A p \<and> on_mark s p
       then Some ''#666666'' else pixels c3 p)" for p
    unfolding c4_def pixels_fold_fillRect by (simp add: on_mark_def f3 in_canvas_update)
  have "pixels c4 = (\<lambda>p. if in_rect 0 0 s s p then Some (solid_disc s p) else None)"
    by (rule ext) (simp add: p4 p3 p2 p1 solid_disc_def A_def)
  then have "canvas_picture c4 = solid_picture n"
    unfolding s_def by (simp add: canvas_picture_def solid_picture_def f4)
  then have "toDataURL c4 ''image/png'' = DataURL ''image/png'' (solid_picture n)"
    using assms(2) by (simp add: toDataURL_def f4)
  then show ?thesis
    unfolding s_def [symmetric] unfold by (simp add: image_of_src_def)
qed

lemma discBase_loaded:
  "load env defaultDiscBase = Some pic \<Longrightarrow> discBase env doc s = Inr (\<lparr>complete = True, picture = pic\<rparr>, doc)"
  by (simp add: discBase_def loadImage_def)

lemma discBase_fallback:
  "load env defaultDiscBase = None \<Longrightarrow> discBase env doc s = createSolidDisc env doc s"
  by (simp add: discBase_def loadImage_def)

lemma discBase_total:
  assumes "context2d env" and "0 \<le> s"
  shows "\<exists>disc doc'. discBase env doc s = Inr (disc, doc')"
proof (cases "load env defaultDiscBase")
  case None
  then show ?thesis using createSolidDisc_total [OF assms] by (simp add: discBase_fallback)
next
  case (Some pic)
  then show ?thesis by (simp add: discBase_loaded)
qed

text \<open>The steps of the composite, for a size that is not negative and a canvas with pixels.\<close>

lemma compositeDiscCover_eq:
  assumes "context2d env" and "load env url = Some gen"
    and "discBase env doc (sizeOf options) = Inr (disc, doc')"
    and "0 \<le> sizeOf options"
    and "0 < reflected 300 (sizeOf options)" and "0 < reflected 150 (sizeOf options)"
  shows "\<exists>out. compositeDiscCover env doc url options = (Inr (DataURL ''image/png'' out), doc')
     \<and> picture_width out = reflected 300 (sizeOf options)
     \<and> picture_height out = reflected 150 (sizeOf options)
     \<and> (\<forall>p. picture_pixels out p =
          (if in_rect 0 0 (real (reflected 300 (sizeOf options))) (real (reflected 150 (sizeOf options))) p
               \<and> inside (center (sizeOf options)) (sizeOf options * 0.4) p
               \<and> \<not> inside (center (sizeOf options)) (sizeOf options * 0.08) p
           then over (pixels (drawImage5 (sized_canvas (sizeOf options)) \<lparr>complete = True, picture = gen\<rparr>
                                0 0 (sizeOf options) (sizeOf options)) p)
                  (pixels (drawDiscBase (sized_canvas (sizeOf options)) disc (sizeOf options)) p)
           else pixels (drawDiscBase (sized_canvas (sizeOf options)) disc (sizeOf options)) p))"
proof -
  define s where "s = sizeOf options"
  define bg where "bg = drawDiscBase (sized_canvas s) disc s"
  define temp where "temp = drawImage5 (sized_canvas s) \<lparr>complete = True, picture = gen\<rparr> 0 0 s s"
  have tf: "0 < canvas_width temp" "0 < canvas_height temp"
    using assms(5,6) by (simp_all add: temp_def drawImage5_frame sized_canvas_simps s_def)
  have bf: "canvas_width bg = reflected 300 s" "canvas_height bg = reflected 150 s"
    "\<And>p. clipping bg p" "in_canvas temp = in_canvas bg"
    by (simp_all add: bg_def temp_def drawDiscBase_def drawImage5_frame sized_canvas_simps)
  from drawMasked_eq [OF assms(4) [folded s_def] tf, of bg]
  obtain final where final: "drawMasked bg temp s = Inr final"
    and ff: "canvas_width final = canvas_width bg" "canvas_height final = canvas_height bg"
    and px: "\<And>p. pixels final p =
          (if in_canvas bg p \<and> clipping bg p \<and> inside (center s) (s * 0.4) p
               \<and> \<not> inside (center s) (s * 0.08) p \<and> in_canvas temp p
           then over (pixels temp p) (pixels bg p) else pixels bg p)"
    by blast
  have result: "compositeDiscCover env doc url options = (Inr (toDataURL final ''image/png''), doc')"
    using assms(1,2,3) final
    by (simp add: compositeDiscCover_def Let_def createCanvas_ok loadImage_def tempCanvas_ok
        s_def bg_def temp_def)
  have url: "toDataURL final ''image/png'' = DataURL ''image/png'' (canvas_picture final)"
    using assms(5,6) by (simp add: toDataURL_def ff bf s_def)
  have "picture_pixels (canvas_picture final) p =
          (if in_rect 0 0 (real (reflected 300 s)) (real (reflected 150 s)) p
               \<and> inside (center s) (s * 0.4) p \<and> \<not> inside (center s) (s * 0.08) p
           then over (pixels temp p) (pixels bg p) else pixels bg p)" for p
    by (simp add: canvas_picture_def px bf in_canvas_rect)
  moreover have "picture_width (canvas_picture final) = reflected 300 s"
    "picture_height (canvas_picture final) = reflected 150 s"
    by (simp_all add: canvas_picture_def ff bf)
  ultimately show ?thesis
    unfolding result url s_def [symmetric] bg_def [symmetric] temp_def [symmetric] by blast
qed

subsection \<open>The ring of marks\<close>

lemma mark_offsets:
  "fst (mark s i) - fst (center s) = cos (real i / 20 * 2 * pi) * (s * 0.4 * 0.7)"
  "snd (mark s i) - snd (center s) = sin (real i / 20 * 2 * pi) * (s * 0.4 * 0.7)"
  by (simp_all add: mark_def Let_def center_def)

lemma ring_sum: "(x * r)\<^sup>2 + (y * r)\<^sup>2 = (x\<^sup>2 + y\<^sup>2) * r\<^sup>2" for x y r :: real
  by (simp add: power_mult_distrib distrib_right)

lemma mark_on_ring: "0 \<le> s \<Longrightarrow> distance (center s) (mark s i) = 0.7 * (0.4 * s)"
proof -
  assume s: "0 \<le> s"
  define r where "r = s * 0.4 * 0.7"
  define a where "a = real i / 20 * 2 * pi"
  have "distance (center s) (mark s i) = sqrt ((cos a * r)\<^sup>2 + (sin a * r)\<^sup>2)"
    unfolding distance_def mark_offsets r_def a_def ..
  also have "\<dots> = sqrt (((cos a)\<^sup>2 + (sin a)\<^sup>2) * r\<^sup>2)"
    by (simp only: ring_sum)
  also have "\<dots> = sqrt (r\<^sup>2)"
    by (simp only: sin_cos_squared_add2 mult_1)
  also have "\<dots> = r" using s by (simp add: r_def)
  finally show ?thesis by (simp add: r_def)
qed

lemma chord_algebra:
  "(x * r - y * r)\<^sup>2 + (z * r - w * r)\<^sup>2
     = r\<^sup>2 * ((x\<^sup>2 + z\<^sup>2) + (y\<^sup>2 + w\<^sup>2) - 2 * (y * x + w * z))" for x y z w r :: real
  by (simp add: power2_eq_square algebra_simps)

lemma chord:
  "(cos b * r - cos a * r)\<^sup>2 + (sin b * r - sin a * r)\<^sup>2 = r\<^sup>2 * (2 - 2 * cos (a - b))" for a b r :: real
proof -
  have "(cos b * r - cos a * r)\<^sup>2 + (sin b * r - sin a * r)\<^sup>2
      = r\<^sup>2 * (((cos b)\<^sup>2 + (sin b)\<^sup>2) + ((cos a)\<^sup>2 + (sin a)\<^sup>2) - 2 * (cos a * cos b + sin a * sin b))"
    by (rule chord_algebra)
  also have "\<dots> = r\<^sup>2 * (1 + 1 - 2 * cos (a - b))"
    by (simp only: sin_cos_squared_add2 cos_diff)
  finally show ?thesis by simp
qed

lemma marks_apart:
  "(fst (mark s j) - fst (mark s i))\<^sup>2 + (snd (mark s j) - snd (mark s i))\<^sup>2 =
     (s * 0.4 * 0.7)\<^sup>2 * (2 - 2 * cos (real i / 20 * 2 * pi - real j / 20 * 2 * pi))"
proof -
  have "fst (mark s j) - fst (mark s i) = (fst (mark s j) - fst (center s)) - (fst (mark s i) - fst (center s))"
    "snd (mark s j) - snd (mark s i) = (snd (mark s j) - snd (center s)) - (snd (mark s i) - snd (center s))"
    by simp_all
  then show ?thesis
    by (simp only: mark_offsets chord)
qed

lemma cos_step:
  assumes "i < 20"
  shows "cos (real i / 20 * 2 * pi - real (Suc i mod 20) / 20 * 2 * pi) = cos (pi / 10)"
proof (cases "i = 19")
  case True
  have "cos (real i / 20 * 2 * pi - real (Suc i mod 20) / 20 * 2 * pi) = cos (2 * pi - pi / 10)"
    using True by (simp add: field_simps)
  then show ?thesis by (simp only: cos_2pi_minus)
next
  case False
  with assms have "Suc i mod 20 = Suc i" by simp
  then have "real i / 20 * 2 * pi - real (Suc i mod 20) / 20 * 2 * pi = - (pi / 10)"
    by (simp add: field_simps)
  then show ?thesis by (simp only: cos_minus)
qed

lemma mark_spacing:
  assumes "i < 20"
  shows "distance (mark s i) (mark s (Suc i mod 20)) = sqrt ((0.7 * (0.4 * s))\<^sup>2 * (2 - 2 * cos (pi / 10)))"
proof -
  have "distance (mark s i) (mark s (Suc i mod 20)) =
      sqrt ((s * 0.4 * 0.7)\<^sup>2 * (2 - 2 * cos (real i / 20 * 2 * pi - real (Suc i mod 20) / 20 * 2 * pi)))"
    by (simp only: distance_def marks_apart)
  also have "\<dots> = sqrt ((s * 0.4 * 0.7)\<^sup>2 * (2 - 2 * cos (pi / 10)))"
    by (simp only: cos_step [OF assms])
  finally show ?thesis by (simp add: mult.commute)
qed

lemma mark_inj:
  assumes "s \<noteq> 0" "i < 20" "j < 20" "mark s i = mark s j"
  shows "i = j"
proof -
  define r where "r = s * 0.4 * 0.7"
  define a where "a = real i / 20 * 2 * pi"
  define b where "b = real j / 20 * 2 * pi"
  have r: "r \<noteq> 0" using assms(1) by (simp add: r_def)
  have "fst (mark s i) - fst (center s) = fst (mark s j) - fst (center s)"
    "snd (mark s i) - snd (center s) = snd (mark s j) - snd (center s)"
    using assms(4) by simp_all
  then have "cos a * r = cos b * r" "sin a * r = sin b * r"
    unfolding mark_offsets r_def a_def b_def by blast+
  with r have "sin a = sin b \<and> cos a = cos b" by simp
  then obtain k :: int where k: "a = b + 2 * pi * real_of_int k"
    unfolding sin_cos_eq_iff by blast
  have "a = pi * (real i / 10)" "b + 2 * pi * real_of_int k = pi * (real j / 10 + 2 * real_of_int k)"
    by (simp_all add: a_def b_def algebra_simps)
  with k have "pi * (real i / 10) = pi * (real j / 10 + 2 * real_of_int k)" by simp
  then have "real i / 10 = real j / 10 + 2 * real_of_int k"
    by (simp only: mult_cancel_left) simp
  then have "real i = real j + 20 * real_of_int k" by simp
  then have "real_of_int (int i) = real_of_int (int j + 20 * k)" by simp
  then have "int i = int j + 20 * k" by (simp only: of_int_eq_iff)
  with assms(2,3) show ?thesis by arith
qed

lemma marks_distinct: "s \<noteq> 0 \<Longrightarrow> distinct (map (mark s) [0..<20])"
proof -
  assume n: "s \<noteq> 0"
  have "inj_on (mark s) (set [0..<20])"
    by (rule inj_onI) (use n in \<open>auto dest: mark_inj\<close>)
  then show ?thesis by (simp add: distinct_map)
qed

lemma on_mark_iff: "on_mark s p \<longleftrightarrow> (\<exists>i<20. in_rect (fst (mark s i)) (snd (mark s i)) 1 1 p)"
  by (auto simp: on_mark_def list_ex_iff)

lemma prod_bound: "\<bar>c\<bar> \<le> 1 \<Longrightarrow> 0 \<le> u \<Longrightarrow> u < 1 \<Longrightarrow> \<bar>c * u\<bar> \<le> 1" for c u :: real
proof -
  assume a: "\<bar>c\<bar> \<le> 1" "0 \<le> u" "u < 1"
  have "\<bar>c * u\<bar> = \<bar>c\<bar> * u" using a by (simp add: abs_mult)
  also have "\<dots> \<le> 1 * 1" using a by (intro mult_mono) simp_all
  finally show ?thesis by simp
qed

lemma band_algebra:
  "(x * r + u)\<^sup>2 + (y * r + v)\<^sup>2 = (x\<^sup>2 + y\<^sup>2) * r\<^sup>2 + 2 * (r * (x * u + y * v)) + (u\<^sup>2 + v\<^sup>2)"
  for x y r u v :: real
  by (simp add: power2_eq_square algebra_simps)

text \<open>Every point of a mark lies in a band around the ring.\<close>

lemma on_mark_band:
  assumes "on_mark s p" and "0 \<le> s"
  shows "(s * 0.4 * 0.7)\<^sup>2 - 4 * (s * 0.4 * 0.7)
           \<le> (fst p - fst (center s))\<^sup>2 + (snd p - snd (center s))\<^sup>2
       \<and> (fst p - fst (center s))\<^sup>2 + (snd p - snd (center s))\<^sup>2
           \<le> (s * 0.4 * 0.7)\<^sup>2 + 4 * (s * 0.4 * 0.7) + 2"
proof -
  define r where "r = s * 0.4 * 0.7"
  from assms obtain i where i: "in_rect (fst (mark s i)) (snd (mark s i)) 1 1 p"
    by (auto simp: on_mark_iff)
  define x where "x = cos (real i / 20 * 2 * pi)"
  define y where "y = sin (real i / 20 * 2 * pi)"
  define u where "u = fst p - fst (mark s i)"
  define v where "v = snd p - snd (mark s i)"
  have uv: "0 \<le> u" "u < 1" "0 \<le> v" "v < 1"
    using i by (simp_all add: in_rect_iff u_def v_def)
  have r0: "0 \<le> r" using assms(2) by (simp add: r_def)
  have xy: "x\<^sup>2 + y\<^sup>2 = 1" "\<bar>x\<bar> \<le> 1" "\<bar>y\<bar> \<le> 1" by (simp_all add: x_def y_def)
  have "fst p - fst (center s) = (fst (mark s i) - fst (center s)) + u"
    "snd p - snd (center s) = (snd (mark s i) - snd (center s)) + v"
    by (simp_all add: u_def v_def)
  then have "fst p - fst (center s) = x * r + u" "snd p - snd (center s) = y * r + v"
    unfolding mark_offsets x_def y_def r_def by blast+
  then have "(fst p - fst (center s))\<^sup>2 + (snd p - snd (center s))\<^sup>2
      = (x\<^sup>2 + y\<^sup>2) * r\<^sup>2 + 2 * (r * (x * u + y * v)) + (u\<^sup>2 + v\<^sup>2)"
    by (simp only: band_algebra)
  then have d2: "(fst p - fst (center s))\<^sup>2 + (snd p - snd (center s))\<^sup>2
      = r\<^sup>2 + 2 * (r * (x * u + y * v)) + (u\<^sup>2 + v\<^sup>2)"
    by (simp only: xy mult_1)
  have "\<bar>x * u\<bar> \<le> 1" "\<bar>y * v\<bar> \<le> 1"
    using uv xy by (simp_all add: prod_bound)
  then have mid: "- 2 \<le> x * u + y * v" "x * u + y * v \<le> 2" by linarith+
  have lo: "r * (- 2) \<le> r * (x * u + y * v)"
    using mid(1) r0 by (rule mult_left_mono)
  have hi: "r * (x * u + y * v) \<le> r * 2"
    using mid(2) r0 by (rule mult_left_mono)
  have sq: "0 \<le> u\<^sup>2" "0 \<le> v\<^sup>2" "u\<^sup>2 \<le> 1" "v\<^sup>2 \<le> 1"
    using uv by (simp_all add: power_le_one)
  have "r\<^sup>2 - 4 * r \<le> r\<^sup>2 + 2 * (r * (x * u + y * v)) + (u\<^sup>2 + v\<^sup>2)"
    using lo sq by linarith
  moreover have "r\<^sup>2 + 2 * (r * (x * u + y * v)) + (u\<^sup>2 + v\<^sup>2) \<le> r\<^sup>2 + 4 * r + 2"
    using hi sq by linarith
  ultimately show ?thesis unfolding d2 r_def by blast
qed

lemma not_on_mark_near:
  "0 \<le> s \<Longrightarrow>
   (fst p - fst (center s))\<^sup>2 + (snd p - snd (center s))\<^sup>2 < (s * 0.4 * 0.7)\<^sup>2 - 4 * (s * 0.4 * 0.7)
    \<Longrightarrow> \<not> on_mark s p"
  using on_mark_band [of s p] by linarith

lemma not_on_mark_far:
  "0 \<le> s \<Longrightarrow>
   (s * 0.4 * 0.7)\<^sup>2 + 4 * (s * 0.4 * 0.7) + 2 < (fst p - fst (center s))\<^sup>2 + (snd p - snd (center s))\<^sup>2
    \<Longrightarrow> \<not> on_mark s p"
  using on_mark_band [of s p] by linarith

subsection \<open>The cover, point by point\<close>


lemma pixels_drawImage5_blank:
  "pixels (drawImage5 (blank_canvas n n) img 0 0 (real n) (real n)) p =
     (if complete img then stretched (picture img) (real n) p else None)"
  by (simp add: pixels_drawImage5 blank_canvas_simps over_def stretched_def stretch_def
      split: option.splits)

lemma stretched_solid_picture:
  assumes "0 < n"
  shows "stretched (solid_picture n) (real n) p = picture_pixels (solid_picture n) p"
  using assms
  by (cases p) (simp add: stretched_def stretch_def sample_def solid_picture_def)

text \<open>The cover of a whole size, point by point.\<close>

lemma compositeDiscCover_whole:
  assumes "context2d env" and "load env url = Some gen"
    and "discBase env doc (real n) = Inr (disc, doc')"
    and "sizeOf options = real n" and "n \<le> 2147483647"
  shows "compositeDiscCover env doc url options = (Inr (DataURL ''image/png''
     \<lparr>picture_width = n, picture_height = n,
      picture_pixels = (\<lambda>p.
        if in_rect 0 0 (real n) (real n) p \<and> inside (center (real n)) (real n * 0.4) p
           \<and> \<not> inside (center (real n)) (real n * 0.08) p
        then over (stretched gen (real n) p)
               (if complete disc then stretched (picture disc) (real n) p else None)
        else if complete disc then stretched (picture disc) (real n) p else None)\<rparr>), doc')"
proof -
  have n: "0 < n" using sizeOf_nonzero [of options] assms(4) by simp
  have dims: "reflected 300 (real n) = n" "reflected 150 (real n) = n"
    using assms(5) by (simp_all add: reflected_nat)
  have canvas: "sized_canvas (real n) = blank_canvas n n"
    using assms(5) by (simp add: sized_canvas_nat)
  have pre: "discBase env doc (sizeOf options) = Inr (disc, doc')" "0 \<le> sizeOf options"
    "0 < reflected 300 (sizeOf options)" "0 < reflected 150 (sizeOf options)"
    using assms(3) n by (simp_all add: assms(4) dims)
  from compositeDiscCover_eq [OF assms(1,2) pre]
  show ?thesis
    unfolding assms(4) dims canvas
  proof (elim exE conjE)
    fix out
    assume out: "compositeDiscCover env doc url options = (Inr (DataURL ''image/png'' out), doc')"
      and w: "picture_width out = n" and h: "picture_height out = n"
      and px: "\<forall>p. picture_pixels out p =
          (if in_rect 0 0 (real n) (real n) p \<and> inside (center (real n)) (real n * 0.4) p
               \<and> \<not> inside (center (real n)) (real n * 0.08) p
           then over (pixels (drawImage5 (blank_canvas n n) \<lparr>complete = True, picture = gen\<rparr>
                                0 0 (real n) (real n)) p)
                  (pixels (drawDiscBase (blank_canvas n n) disc (real n)) p)
           else pixels (drawDiscBase (blank_canvas n n) disc (real n)) p)"
    have "picture_pixels out = (\<lambda>p.
        if in_rect 0 0 (real n) (real n) p \<and> inside (center (real n)) (real n * 0.4) p
           \<and> \<not> inside (center (real n)) (real n * 0.08) p
        then over (stretched gen (real n) p)
               (if complete disc then stretched (picture disc) (real n) p else None)
        else if complete disc then stretched (picture disc) (real n) p else None)"
      by (rule ext) (simp only: px [rule_format] drawDiscBase_def pixels_drawImage5_blank Image.simps if_True)
    with w h have "out = \<lparr>picture_width = n, picture_height = n,
      picture_pixels = (\<lambda>p.
        if in_rect 0 0 (real n) (real n) p \<and> inside (center (real n)) (real n * 0.4) p
           \<and> \<not> inside (center (real n)) (real n * 0.08) p
        then over (stretched gen (real n) p)
               (if complete disc then stretched (picture disc) (real n) p else None)
        else if complete disc then stretched (picture disc) (real n) p else None)\<rparr>"
      by (cases out) simp
    with out show ?thesis by simp
  qed
qed


text \<open>The concrete inputs.\<close>

lemma browser_facts:
  "context2d browser" "load browser cover_url = Some red_square"
  "load browser defaultDiscBase = None" "load browser missing_url = None"
  by (simp_all add: browser_def cover_url_def defaultDiscBase_def missing_url_def)

lemma browser_with_asset_facts:
  "context2d browser_with_asset" "load browser_with_asset cover_url = Some red_square"
  "load browser_with_asset defaultDiscBase = Some blue_square"
  by (simp_all add: browser_with_asset_def cover_url_def defaultDiscBase_def)



lemma points_300:
  "in_rect 0 0 300 300 (150, 150)" "in_rect 0 0 300 300 (150, 100)" "in_rect 0 0 300 300 (10, 10)"
  "in_rect 0 0 300 300 (234, 150)"
  "distance (center 300) (150, 150) < 0.08 * 300"
  "0.08 * 300 < distance (center 300) (150, 100)" "distance (center 300) (150, 100) < 0.4 * 300"
  "0.4 * 300 < distance (center 300) (10, 10)"
proof -
  show "in_rect 0 0 300 300 (150, 150)" "in_rect 0 0 300 300 (150, 100)" "in_rect 0 0 300 300 (10, 10)"
    "in_rect 0 0 300 300 (234, 150)"
    by (simp_all add: in_rect_iff)
  have "inside (center 300) (0.08 * 300) (150, 150)" "inside (center 300) (0.4 * 300) (150, 100)"
    by (simp_all add: inside_def center_def)
  then show "distance (center 300) (150, 150) < 0.08 * 300" "distance (center 300) (150, 100) < 0.4 * 300"
    by (simp_all add: inside_iff_distance)
  have "(0.08 * 300)\<^sup>2 < (fst (150, 100) - fst (center 300))\<^sup>2 + (snd (150, 100 :: real) - snd (center 300))\<^sup>2"
    "(0.4 * 300)\<^sup>2 < (fst (10, 10) - fst (center 300))\<^sup>2 + (snd (10, 10 :: real) - snd (center 300))\<^sup>2"
    by (simp_all add: center_def)
  then show "0.08 * 300 < distance (center 300) (150, 100)" "0.4 * 300 < distance (center 300) (10, 10)"
    by (simp_all add: beyond_iff_distance)
qed

lemma solid_disc_300:
  "solid_disc 300 (150, 150) = ''#ffffff''" "solid_disc 300 (150, 100) = ''#888888''"
  "solid_disc 300 (10, 10) = ''#f0f0f0''"
proof -
  have "\<not> on_mark 300 (150, 150)" by (rule not_on_mark_near) (simp_all add: center_def)
  then show "solid_disc 300 (150, 150) = ''#ffffff''"
    by (simp add: solid_disc_def inside_def center_def)
  have "\<not> on_mark 300 (150, 100)" by (rule not_on_mark_near) (simp_all add: center_def)
  then show "solid_disc 300 (150, 100) = ''#888888''"
    by (simp add: solid_disc_def inside_def center_def)
  have "\<not> on_mark 300 (10, 10)" by (rule not_on_mark_far) (simp_all add: center_def)
  then show "solid_disc 300 (10, 10) = ''#f0f0f0''"
    by (simp add: solid_disc_def inside_def center_def)
qed

lemma solid_disc_mark: "solid_disc 300 (234, 150) = ''#666666''"
proof -
  have "mark 300 0 = (234, 150)" by (simp add: mark_def Let_def)
  then have "in_rect (fst (mark 300 0)) (snd (mark 300 0)) 1 1 (234, 150)"
    by (simp add: in_rect_iff)
  then have "on_mark 300 (234, 150)" unfolding on_mark_iff by (intro exI [of _ 0]) simp
  then show ?thesis by (simp add: solid_disc_def)
qed







subsection \<open>The cover\<close>




subsection \<open>The solid disc\<close>

text \<open>
  \<^bold>\<open>C2.\<close> Let \<^verbatim>\<open>options.outputSize\<close> be a whole number \<open>n\<close> from 1 to 2147483647, or be unset
  or 0, and then \<open>n\<close> is 300. When a drawing context is available, the generated image
  loads and the disc base asset does not, \<^verbatim>\<open>compositeDiscCover\<close> still returns a PNG data
  URL, of a surface \<open>n\<close> wide and \<open>n\<close> high, and the disc base is the element
  \<^verbatim>\<open>createSolidDisc\<close> returns. Its picture is \<open>n\<close> wide and \<open>n\<close> high and shows the solid
  disc: the ground \<open>#f0f0f0\<close>, the disc \<open>#888888\<close> inside the radius \<open>0.4 n\<close>, the hole
  \<open>#ffffff\<close> inside the radius \<open>0.08 n\<close>, and twenty unit squares \<open>#666666\<close>. The corners of
  the squares are twenty different points at the distance \<open>0.7 (0.4 n)\<close> from the centre,
  each at the same distance from the next one around the ring. The element is returned
  with its \<^verbatim>\<open>src\<close> just assigned, and it is complete only when its data URL is already
  among the images of the document; the call adds it to them. When it is complete, the
  canvas after \<^verbatim>\<open>drawDiscBase\<close>, and the cover inside the radius \<open>0.08 n\<close> and outside the
  radius \<open>0.4 n\<close>, show this picture; when it is not, \<^verbatim>\<open>drawImage\<close> paints nothing and they
  show nothing.
\<close>

theorem createSolidDisc_fallback:
  assumes "context2d env" and "load env defaultDiscBase = None" and "load env url = Some gen"
    and "outputSize options = Some (real n) \<and> 0 < n
         \<or> (outputSize options = None \<or> outputSize options = Some 0) \<and> n = 300"
    and "n \<le> 2147483647"
  shows "\<exists>disc doc' out.
       sizeOf options = real n
     \<and> discBase env doc (real n) = Inr (disc, doc')
     \<and> createSolidDisc env doc (real n) = Inr (disc, doc')
     \<and> compositeDiscCover env doc url options = (Inr (DataURL ''image/png'' out), doc')
     \<and> complete disc = (DataURL ''image/png'' (picture disc) \<in> doc)
     \<and> doc' = insert (DataURL ''image/png'' (picture disc)) doc
     \<and> picture_width (picture disc) = n \<and> picture_height (picture disc) = n
     \<and> (\<forall>p. picture_pixels (picture disc) p =
              (if in_rect 0 0 (real n) (real n) p then Some (solid_disc (real n) p) else None))
     \<and> length (map (mark (real n)) [0..<20]) = 20 \<and> distinct (map (mark (real n)) [0..<20])
     \<and> (\<forall>i<20. distance (center (real n)) (mark (real n) i) = 0.7 * (0.4 * real n))
     \<and> (\<forall>i<20. distance (mark (real n) i) (mark (real n) (Suc i mod 20))
                  = sqrt ((0.7 * (0.4 * real n))\<^sup>2 * (2 - 2 * cos (pi / 10))))
     \<and> (\<forall>p. pixels (drawDiscBase (sized_canvas (real n)) disc (real n)) p =
              (if complete disc then picture_pixels (picture disc) p else None))
     \<and> picture_width out = n \<and> picture_height out = n
     \<and> (\<forall>p. distance (center (real n)) p < 0.08 * real n \<or> 0.4 * real n < distance (center (real n)) p
           \<longrightarrow> picture_pixels out p =
                 (if complete disc then picture_pixels (picture disc) p else None))"
proof -
  define s where "s = real n"
  define disc where "disc = \<lparr>complete = (DataURL ''image/png'' (solid_picture n) \<in> doc),
     picture = solid_picture n\<rparr>"
  define doc' where "doc' = insert (DataURL ''image/png'' (solid_picture n)) doc"
  define out where "out = \<lparr>picture_width = n, picture_height = n,
      picture_pixels = (\<lambda>p.
        if in_rect 0 0 s s p \<and> inside (center s) (s * 0.4) p \<and> \<not> inside (center s) (s * 0.08) p
        then over (stretched gen s p)
               (if complete disc then stretched (picture disc) s p else None)
        else if complete disc then stretched (picture disc) s p else None)\<rparr>"
  have size: "sizeOf options = real n"
    using assms(4) by (auto simp: sizeOf_cases)
  have n: "0 < n" using sizeOf_nonzero [of options] size by simp
  have s0: "0 \<le> s" by (simp add: s_def)
  have solid: "createSolidDisc env doc (real n) = Inr (disc, doc')"
    unfolding disc_def doc'_def using assms(1) n assms(5) by (rule createSolidDisc_picture)
  then have base: "discBase env doc (real n) = Inr (disc, doc')"
    using assms(2) by (simp add: discBase_fallback)
  have result: "compositeDiscCover env doc url options = (Inr (DataURL ''image/png'' out), doc')"
    unfolding out_def s_def
    by (rule compositeDiscCover_whole [OF assms(1,3) base size assms(5)])
  have fields: "complete disc = (DataURL ''image/png'' (picture disc) \<in> doc)"
    "doc' = insert (DataURL ''image/png'' (picture disc)) doc"
    "picture_width (picture disc) = n" "picture_height (picture disc) = n"
    by (simp_all add: disc_def doc'_def solid_picture_def)
  have content: "picture_pixels (picture disc) p =
      (if in_rect 0 0 (real n) (real n) p then Some (solid_disc (real n) p) else None)" for p
    by (simp add: disc_def solid_picture_def)
  have marks: "length (map (mark (real n)) [0..<20]) = 20" "distinct (map (mark (real n)) [0..<20])"
    using n by (simp_all add: marks_distinct del: distinct_map upt_Suc)
  have ring: "distance (center (real n)) (mark (real n) i) = 0.7 * (0.4 * real n)" for i
    by (rule mark_on_ring) simp
  have even: "distance (mark (real n) i) (mark (real n) (Suc i mod 20))
                  = sqrt ((0.7 * (0.4 * real n))\<^sup>2 * (2 - 2 * cos (pi / 10)))" if "i < 20" for i
    using that by (rule mark_spacing)
  have own: "stretched (picture disc) s p = picture_pixels (picture disc) p" for p
    unfolding s_def disc_def using stretched_solid_picture [OF n, of p] by simp
  have drawn: "pixels (drawDiscBase (sized_canvas (real n)) disc (real n)) p =
              (if complete disc then picture_pixels (picture disc) p else None)" for p
    using assms(5) own [of p]
    by (simp add: drawDiscBase_def sized_canvas_nat pixels_drawImage5_blank s_def)
  have dims: "picture_width out = n" "picture_height out = n" by (simp_all add: out_def)
  have inner: "inside (center s) (s * 0.08) p \<longleftrightarrow> distance (center s) p < 0.08 * s" for p
    using s0 by (simp add: inside_iff_distance mult.commute)
  have outer: "inside (center s) (s * 0.4) p \<longleftrightarrow> distance (center s) p < 0.4 * s" for p
    using s0 by (simp add: inside_iff_distance mult.commute)
  have px: "picture_pixels out p =
      (if in_rect 0 0 s s p \<and> inside (center s) (s * 0.4) p \<and> \<not> inside (center s) (s * 0.08) p
       then over (stretched gen s p) (if complete disc then picture_pixels (picture disc) p else None)
       else if complete disc then picture_pixels (picture disc) p else None)" for p
    unfolding out_def by (simp add: own)
  have around: "picture_pixels out p = (if complete disc then picture_pixels (picture disc) p else None)"
    if "distance (center s) p < 0.08 * s \<or> 0.4 * s < distance (center s) p" for p
    using that inner [of p] outer [of p] unfolding px by auto
  from size base solid result fields content marks ring even drawn dims around show ?thesis
    unfolding s_def by blast
qed

text \<open>
  In a document that has no image yet, with the default size of 300: the solid disc is
  built, with its hole, disc, mark and ground, but the element is not complete; the canvas
  stays empty after \<^verbatim>\<open>drawDiscBase\<close>, and the cover, 300 by 300, shows nothing at the
  centre and in the corner.
\<close>

theorem createSolidDisc_fallback_witness:
  "\<exists>disc doc' out.
       createSolidDisc browser {} 300 = Inr (disc, doc')
     \<and> picture_pixels (picture disc) (150, 150) = Some ''#ffffff''
     \<and> picture_pixels (picture disc) (150, 100) = Some ''#888888''
     \<and> picture_pixels (picture disc) (234, 150) = Some ''#666666''
     \<and> picture_pixels (picture disc) (10, 10) = Some ''#f0f0f0''
     \<and> \<not> complete disc
     \<and> pixels (drawDiscBase (sized_canvas 300) disc 300) (150, 150) = None
     \<and> pixels (drawDiscBase (sized_canvas 300) disc 300) (10, 10) = None
     \<and> compositeDiscCover browser {} cover_url no_options = (Inr (DataURL ''image/png'' out), doc')
     \<and> picture_width out = 300 \<and> picture_height out = 300
     \<and> picture_pixels out (150, 150) = None
     \<and> picture_pixels out (10, 10) = None"
proof -
  have size: "outputSize no_options = Some (real 300) \<and> 0 < (300::nat)
         \<or> (outputSize no_options = None \<or> outputSize no_options = Some 0) \<and> (300::nat) = 300"
    by (simp add: no_options_def sized_def)
  have bound: "(300::nat) \<le> 2147483647" by simp
  from createSolidDisc_fallback [OF browser_facts(1,3,2) size bound, of "{}"]
  show ?thesis
  proof (elim exE conjE)
    fix disc doc' out
    assume solid: "createSolidDisc browser {} (real 300) = Inr (disc, doc')"
      and result: "compositeDiscCover browser {} cover_url no_options = (Inr (DataURL ''image/png'' out), doc')"
      and flag: "complete disc = (DataURL ''image/png'' (picture disc) \<in> {})"
      and content: "\<forall>p. picture_pixels (picture disc) p =
              (if in_rect 0 0 (real 300) (real 300) p then Some (solid_disc (real 300) p) else None)"
      and drawn: "\<forall>p. pixels (drawDiscBase (sized_canvas (real 300)) disc (real 300)) p =
              (if complete disc then picture_pixels (picture disc) p else None)"
      and dims: "picture_width out = 300" "picture_height out = 300"
      and around: "\<forall>p. distance (center (real 300)) p < 0.08 * real 300
             \<or> 0.4 * real 300 < distance (center (real 300)) p
           \<longrightarrow> picture_pixels out p =
                 (if complete disc then picture_pixels (picture disc) p else None)"
    have not: "\<not> complete disc" using flag by simp
    have px: "picture_pixels (picture disc) p =
              (if in_rect 0 0 300 300 p then Some (solid_disc 300 p) else None)" for p
      using content [rule_format, of p] by simp
    have bg: "pixels (drawDiscBase (sized_canvas 300) disc 300) p = None" for p
      using drawn [rule_format, of p] not by simp
    have o1: "picture_pixels out (150, 150) = None"
      using around [rule_format, of "(150, 150)"] points_300 not by simp
    have o2: "picture_pixels out (10, 10) = None"
      using around [rule_format, of "(10, 10)"] points_300 not by simp
    have "createSolidDisc browser {} 300 = Inr (disc, doc')" using solid by simp
    moreover have "picture_pixels (picture disc) (150, 150) = Some ''#ffffff''"
      "picture_pixels (picture disc) (150, 100) = Some ''#888888''"
      "picture_pixels (picture disc) (234, 150) = Some ''#666666''"
      "picture_pixels (picture disc) (10, 10) = Some ''#f0f0f0''"
      using points_300 by (simp_all add: px solid_disc_300 solid_disc_mark)
    ultimately show ?thesis using not bg result dims o1 o2 by blast
  qed
qed

subsection \<open>Rejections\<close>

text \<open>
  \<^bold>\<open>C7.\<close> When the generated image does not load, \<^verbatim>\<open>compositeDiscCover\<close> rejects: with the
  error event of that address when a drawing context is available (the context is taken
  first, and its absence is the error otherwise). There is no fallback, no data URL is
  returned, and the document is left as it is.
\<close>

theorem compositeDiscCover_load_failure:
  assumes "load env url = None"
  shows "compositeDiscCover env doc url options =
           (Inl (if context2d env then ErrorEvent url else Error ''Could not get canvas context''), doc)
       \<and> (\<forall>out. fst (compositeDiscCover env doc url options) \<noteq> Inr out)"
proof -
  have "compositeDiscCover env doc url options =
           (Inl (if context2d env then ErrorEvent url else Error ''Could not get canvas context''), doc)"
    using assms
    by (simp add: compositeDiscCover_def Let_def createCanvas_def getContext_def loadImage_def)
  then show ?thesis by simp
qed

text \<open>An address that the browser does not load rejects with its error event.\<close>

theorem compositeDiscCover_load_failure_witness:
  "load browser missing_url = None
   \<and> compositeDiscCover browser {} missing_url no_options = (Inl (ErrorEvent missing_url), {})"
  using compositeDiscCover_load_failure [of browser missing_url "{}" no_options]
  by (simp add: browser_facts)

subsection \<open>Two calls\<close>

text \<open>
  \<^bold>\<open>C9.\<close> Let \<^verbatim>\<open>options.outputSize\<close> be a whole number \<open>n\<close> from 1 to 2147483647, or be unset
  or 0, and then \<open>n\<close> is 300; let a drawing context be available and the generated image
  load. When the disc base asset loads, every call returns the same data URL, whatever
  the document, and leaves the document as it is. When the asset does not load, two calls
  with the same arguments, one after the other, do not return the same data URL if the
  document did not have the data URL of the solid disc before the first: the solid disc
  of the first call is not complete when it is drawn and that of the second call is, so
  inside the radius \<open>0.08 n\<close> and outside the radius \<open>0.4 n\<close> the first cover shows nothing
  and the second one shows the solid disc.
\<close>

theorem compositeDiscCover_second_call:
  assumes "context2d env" and "load env url = Some gen"
    and "outputSize options = Some (real n) \<and> 0 < n
         \<or> (outputSize options = None \<or> outputSize options = Some 0) \<and> n = 300"
    and "n \<le> 2147483647"
  shows "(\<forall>base. load env defaultDiscBase = Some base \<longrightarrow>
            (\<exists>out. \<forall>doc. compositeDiscCover env doc url options = (Inr (DataURL ''image/png'' out), doc)))
     \<and> (load env defaultDiscBase = None \<and> DataURL ''image/png'' (solid_picture n) \<notin> doc \<longrightarrow>
          (\<exists>first second doc'.
               compositeDiscCover env doc url options = (Inr (DataURL ''image/png'' first), doc')
             \<and> compositeDiscCover env doc' url options = (Inr (DataURL ''image/png'' second), doc')
             \<and> DataURL ''image/png'' first \<noteq> DataURL ''image/png'' second
             \<and> (\<forall>p. in_rect 0 0 (real n) (real n) p
                    \<and> (distance (center (real n)) p < 0.08 * real n
                       \<or> 0.4 * real n < distance (center (real n)) p)
                  \<longrightarrow> picture_pixels first p = None
                    \<and> picture_pixels second p = Some (solid_disc (real n) p))))"
proof (intro conjI allI impI)
  fix base
  assume "load env defaultDiscBase = Some base"
  from compositeDiscCover_whole [OF assms(1,2) discBase_loaded [OF this] _ assms(4)] assms(3)
  show "\<exists>out. \<forall>doc. compositeDiscCover env doc url options = (Inr (DataURL ''image/png'' out), doc)"
    by (auto simp: sizeOf_cases)
next
  assume fallback: "load env defaultDiscBase = None \<and> DataURL ''image/png'' (solid_picture n) \<notin> doc"
  define s where "s = real n"
  define u where "u = DataURL ''image/png'' (solid_picture n)"
  define doc' where "doc' = insert u doc"
  define cover where "cover b = \<lparr>picture_width = n, picture_height = n,
      picture_pixels = (\<lambda>p.
        if in_rect 0 0 s s p \<and> inside (center s) (s * 0.4) p \<and> \<not> inside (center s) (s * 0.08) p
        then over (stretched gen s p) (if b then stretched (solid_picture n) s p else None)
        else if b then stretched (solid_picture n) s p else None)\<rparr>" for b
  have size: "sizeOf options = real n"
    using assms(3) by (auto simp: sizeOf_cases)
  have n: "0 < n" using sizeOf_nonzero [of options] size by simp
  have s0: "0 \<le> s" by (simp add: s_def)
  have disc: "discBase env d (real n) = Inr (\<lparr>complete = (u \<in> d), picture = solid_picture n\<rparr>, insert u d)" for d
    unfolding u_def using fallback createSolidDisc_picture [OF assms(1) n assms(4), of d]
    by (simp add: discBase_fallback)
  have call: "compositeDiscCover env d url options = (Inr (DataURL ''image/png'' (cover (u \<in> d))), insert u d)" for d
    unfolding cover_def s_def
    using compositeDiscCover_whole [OF assms(1,2) disc size assms(4), of d] by (simp cong: if_cong)
  have first: "compositeDiscCover env doc url options = (Inr (DataURL ''image/png'' (cover False)), doc')"
    using call [of doc] fallback by (simp add: doc'_def u_def)
  have second: "compositeDiscCover env doc' url options = (Inr (DataURL ''image/png'' (cover True)), doc')"
    using call [of doc'] by (simp add: doc'_def insert_absorb)
  have inner: "inside (center s) (s * 0.08) p \<longleftrightarrow> distance (center s) p < 0.08 * s" for p
    using s0 by (simp add: inside_iff_distance mult.commute)
  have outer: "inside (center s) (s * 0.4) p \<longleftrightarrow> distance (center s) p < 0.4 * s" for p
    using s0 by (simp add: inside_iff_distance mult.commute)
  have own: "stretched (solid_picture n) s p = (if in_rect 0 0 s s p then Some (solid_disc s p) else None)" for p
    unfolding s_def using stretched_solid_picture [OF n, of p] by (simp add: solid_picture_def)
  have around: "picture_pixels (cover False) p = None \<and> picture_pixels (cover True) p = Some (solid_disc s p)"
    if "in_rect 0 0 s s p \<and> (distance (center s) p < 0.08 * s \<or> 0.4 * s < distance (center s) p)" for p
    using that inner [of p] outer [of p] unfolding cover_def by (auto simp: own)
  have "in_rect 0 0 s s (center s)" using n by (simp add: in_rect_iff center_def s_def)
  moreover have "distance (center s) (center s) < 0.08 * s" using n by (simp add: distance_def s_def)
  ultimately have "picture_pixels (cover False) (center s) = None"
    "picture_pixels (cover True) (center s) = Some (solid_disc s (center s))"
    using around [of "center s"] by simp_all
  then have differ: "DataURL ''image/png'' (cover False) \<noteq> DataURL ''image/png'' (cover True)"
    by auto
  from first second differ around
  show "\<exists>first second doc'.
               compositeDiscCover env doc url options = (Inr (DataURL ''image/png'' first), doc')
             \<and> compositeDiscCover env doc' url options = (Inr (DataURL ''image/png'' second), doc')
             \<and> DataURL ''image/png'' first \<noteq> DataURL ''image/png'' second
             \<and> (\<forall>p. in_rect 0 0 (real n) (real n) p
                    \<and> (distance (center (real n)) p < 0.08 * real n
                       \<or> 0.4 * real n < distance (center (real n)) p)
                  \<longrightarrow> picture_pixels first p = None
                    \<and> picture_pixels second p = Some (solid_disc (real n) p))"
    unfolding s_def by blast
qed

text \<open>
  Two calls with no options in a document that has no image yet, without the asset: the
  first cover shows nothing at the centre and in the corner, the second one the hole
  \<open>#ffffff\<close> and the ground \<open>#f0f0f0\<close>. With the asset, the calls in two documents return
  the same.
\<close>

theorem compositeDiscCover_second_call_witness:
  "(\<exists>first second doc'.
       compositeDiscCover browser {} cover_url no_options = (Inr (DataURL ''image/png'' first), doc')
     \<and> compositeDiscCover browser doc' cover_url no_options = (Inr (DataURL ''image/png'' second), doc')
     \<and> DataURL ''image/png'' first \<noteq> DataURL ''image/png'' second
     \<and> picture_pixels first (150, 150) = None
     \<and> picture_pixels second (150, 150) = Some ''#ffffff''
     \<and> picture_pixels first (10, 10) = None
     \<and> picture_pixels second (10, 10) = Some ''#f0f0f0'')
   \<and> fst (compositeDiscCover browser_with_asset {} cover_url no_options)
       = fst (compositeDiscCover browser_with_asset {NoData} cover_url no_options)"
proof -
  have size: "outputSize no_options = Some (real 300) \<and> 0 < (300::nat)
         \<or> (outputSize no_options = None \<or> outputSize no_options = Some 0) \<and> (300::nat) = 300"
    by (simp add: no_options_def sized_def)
  have bound: "(300::nat) \<le> 2147483647" by simp
  have fresh: "load browser defaultDiscBase = None \<and> DataURL ''image/png'' (solid_picture 300) \<notin> {}"
    by (simp add: browser_facts)
  have same: "fst (compositeDiscCover browser_with_asset {} cover_url no_options)
       = fst (compositeDiscCover browser_with_asset {NoData} cover_url no_options)"
    using compositeDiscCover_second_call [OF browser_with_asset_facts(1,2) size bound, THEN conjunct1,
        rule_format, OF browser_with_asset_facts(3)]
    by auto
  from compositeDiscCover_second_call [OF browser_facts(1,2) size bound, THEN conjunct2, rule_format, OF fresh]
  have "\<exists>first second doc'.
       compositeDiscCover browser {} cover_url no_options = (Inr (DataURL ''image/png'' first), doc')
     \<and> compositeDiscCover browser doc' cover_url no_options = (Inr (DataURL ''image/png'' second), doc')
     \<and> DataURL ''image/png'' first \<noteq> DataURL ''image/png'' second
     \<and> picture_pixels first (150, 150) = None
     \<and> picture_pixels second (150, 150) = Some ''#ffffff''
     \<and> picture_pixels first (10, 10) = None
     \<and> picture_pixels second (10, 10) = Some ''#f0f0f0''"
  proof (elim exE conjE)
    fix first second doc'
    assume calls: "compositeDiscCover browser {} cover_url no_options = (Inr (DataURL ''image/png'' first), doc')"
      "compositeDiscCover browser doc' cover_url no_options = (Inr (DataURL ''image/png'' second), doc')"
      and differ: "DataURL ''image/png'' first \<noteq> DataURL ''image/png'' second"
      and around: "\<forall>p. in_rect 0 0 (real 300) (real 300) p
                    \<and> (distance (center (real 300)) p < 0.08 * real 300
                       \<or> 0.4 * real 300 < distance (center (real 300)) p)
                  \<longrightarrow> picture_pixels first p = None
                    \<and> picture_pixels second p = Some (solid_disc (real 300) p)"
    have "picture_pixels first (150, 150) = None \<and> picture_pixels second (150, 150) = Some ''#ffffff''"
      using around [rule_format, of "(150, 150)"] points_300 solid_disc_300 by simp
    moreover have "picture_pixels first (10, 10) = None \<and> picture_pixels second (10, 10) = Some ''#f0f0f0''"
      using around [rule_format, of "(10, 10)"] points_300 solid_disc_300 by simp
    ultimately show ?thesis using calls differ by blast
  qed
  with same show ?thesis by blast
qed

end
